theory Spec2Isabelle
  imports Complex_Main
begin

section \<open>Data model (src/types.ts)\<close>

text \<open>
  TypeScript's \<^verbatim>\<open>number\<close> is modelled by \<^typ>\<open>real\<close>: the ledger and the activity
  filter are read as exact arithmetic, without rounding, infinities or NaN. String-literal union
  types become datatypes, interfaces become records. Every source of nondeterminism of the source
  (\<^verbatim>\<open>crypto.randomUUID()\<close>, \<^verbatim>\<open>Math.random()\<close>, \<^verbatim>\<open>Date.now()\<close>) is an explicit argument of
  the operation that draws it.
\<close>

datatype Action = BUY | SELL | WAIT

datatype OrderType = MARKET | LIMIT | STOP

record TradeExecution =
  action :: Action
  orderType :: OrderType
  entryPrice :: real
  stopLoss :: real
  takeProfit1 :: real
  takeProfit2 :: real
  riskRewardRatio :: real
  suggestedLeverage :: real
  lotSizeCalculation :: real
  confidenceScore :: real
  invalidationLevel :: real

datatype PositionStatus = OPEN | CLOSED

datatype CloseReason = TP | SL | MANUAL

text \<open>
  \<^verbatim>\<open>TradePosition\<close>. A field whose name is taken already gets a suffix: \<^verbatim>\<open>id\<close> is
  \<open>id_pos\<close> (\<open>id\<close> is the identity function of HOL) and \<^verbatim>\<open>entryPrice\<close> is
  \<open>entryPrice_pos\<close> (\<open>entryPrice\<close> is the field of the signal). The optional
  \<^verbatim>\<open>closeReason\<close> is an option.
\<close>

record TradePosition =
  id_pos :: string
  ticket :: nat
  asset :: string
  type :: Action
  entryPrice_pos :: real
  currentPrice :: real
  sl :: real
  tp :: real
  lots :: real
  openTime :: nat
  pnl :: real
  status :: PositionStatus
  closeReason :: "CloseReason option"

record AccountState =
  balance :: real
  equity :: real
  marginUsed :: real
  freeMargin :: real
  positions :: "TradePosition list"

section \<open>Paper Trading Ledger (src/services/paperTradingService.ts)\<close>

text \<open>
  The module-level state of the service: the account, the array of listeners, and, to make the
  calls of listeners observable, the trace \<open>calls\<close> of every invocation \<open>(listener, state)\<close>
  in the order it happened. A listener is identified by a number.
\<close>

record Ledger =
  accountState :: AccountState
  listeners :: "nat list"
  calls :: "(nat \<times> AccountState) list"

definition INITIAL_BALANCE :: real where
  "INITIAL_BALANCE = 100000"

definition initialAccount :: AccountState where
  "initialAccount = \<lparr>balance = INITIAL_BALANCE, equity = INITIAL_BALANCE, marginUsed = 0,
     freeMargin = INITIAL_BALANCE, positions = []\<rparr>"

definition initialLedger :: Ledger where
  "initialLedger = \<lparr>accountState = initialAccount, listeners = [], calls = []\<rparr>"

text \<open>\<^verbatim>\<open>listeners.forEach(l => l(accountState))\<close>: every listener, in order, sees the current state.\<close>

definition notifyListeners :: "Ledger \<Rightarrow> Ledger" where
  "notifyListeners L = L\<lparr>calls := calls L @ map (\<lambda>l. (l, accountState L)) (listeners L)\<rparr>"

text \<open>\<^verbatim>\<open>subscribeToAccountUpdates\<close>: push the listener, then call it once.\<close>

definition subscribeToAccountUpdates :: "nat \<Rightarrow> Ledger \<Rightarrow> Ledger" where
  "subscribeToAccountUpdates l L =
     L\<lparr>listeners := listeners L @ [l], calls := calls L @ [(l, accountState L)]\<rparr>"

text \<open>The returned closure: \<^verbatim>\<open>indexOf\<close>, then \<^verbatim>\<open>splice(index, 1)\<close> when found.\<close>

definition unsubscribe :: "nat \<Rightarrow> Ledger \<Rightarrow> Ledger" where
  "unsubscribe l L = L\<lparr>listeners := remove1 l (listeners L)\<rparr>"

text \<open>
  \<^verbatim>\<open>updateEquity\<close>: \<^verbatim>\<open>reduce((sum, p) => sum + p.pnl, 0)\<close> is a left fold from 0.
\<close>

definition floatingPnL :: "TradePosition list \<Rightarrow> real" where
  "floatingPnL ps = foldl (\<lambda>sum p. sum + pnl p) 0 ps"

definition updateEquityA :: "AccountState \<Rightarrow> AccountState" where
  "updateEquityA a =
     (let a1 = a\<lparr>equity := balance a + floatingPnL (positions a)\<rparr>
      in a1\<lparr>freeMargin := equity a1 - marginUsed a1\<rparr>)"

definition updateEquity :: "Ledger \<Rightarrow> Ledger" where
  "updateEquity L = L\<lparr>accountState := updateEquityA (accountState L)\<rparr>"

text \<open>
  \<^verbatim>\<open>executePaperTrade(execution, asset)\<close>, on an execution of the declared type
  \<^verbatim>\<open>TradeExecution\<close>, every field of which is a number; \<open>executePaperTrade_js\<close> below is the
  same code on an execution with undefined fields, which the program can be given as well. The
  arguments \<open>uuid\<close>, \<open>tk\<close> and \<open>now\<close> are the results of \<^verbatim>\<open>crypto.randomUUID()\<close>, of the ticket
  expression and of \<^verbatim>\<open>Date.now()\<close>. The result is the new state and the returned position
  (\<open>None\<close> for the bare \<^verbatim>\<open>return\<close>).
\<close>

definition newPosition :: "string \<Rightarrow> nat \<Rightarrow> nat \<Rightarrow> TradeExecution \<Rightarrow> string \<Rightarrow> TradePosition" where
  "newPosition uuid tk now execution a =
     \<lparr>id_pos = uuid, ticket = tk, asset = a, type = action execution,
      entryPrice_pos = entryPrice execution, currentPrice = entryPrice execution,
      sl = stopLoss execution, tp = takeProfit1 execution, lots = lotSizeCalculation execution,
      openTime = now, pnl = 0, status = OPEN, closeReason = None\<rparr>"

definition executePaperTrade ::
  "string \<Rightarrow> nat \<Rightarrow> nat \<Rightarrow> TradeExecution \<Rightarrow> string \<Rightarrow> Ledger \<Rightarrow> Ledger \<times> TradePosition option" where
  "executePaperTrade uuid tk now execution a L =
     (if action execution = WAIT then (L, None)
      else
        let np = newPosition uuid tk now execution a;
            acc = accountState L;
            acc1 = acc\<lparr>positions := np # positions acc\<rparr>;
            acc2 = acc1\<lparr>marginUsed := marginUsed acc1 + (entryPrice_pos np * lots np * 100) / 100\<rparr>;
            L1 = updateEquity (L\<lparr>accountState := acc2\<rparr>)
        in (notifyListeners L1, Some np))"

text \<open>\<^verbatim>\<open>Array.prototype.findIndex\<close>: the first index whose element satisfies the predicate.\<close>

fun findIndex :: "('a \<Rightarrow> bool) \<Rightarrow> 'a list \<Rightarrow> nat option" where
  "findIndex P [] = None"
| "findIndex P (x # xs) =
     (if P x then Some 0 else map_option Suc (findIndex P xs))"

text \<open>\<^verbatim>\<open>xs.splice(i, 1)\<close> for an index in range.\<close>

definition splice1 :: "nat \<Rightarrow> 'a list \<Rightarrow> 'a list" where
  "splice1 i xs = take i xs @ drop (Suc i) xs"

definition closePosition :: "string \<Rightarrow> Ledger \<Rightarrow> Ledger" where
  "closePosition i L =
     (case findIndex (\<lambda>p. id_pos p = i) (positions (accountState L)) of
        None \<Rightarrow> L
      | Some posIndex \<Rightarrow>
          let acc = accountState L;
              pos = positions acc ! posIndex;
              acc1 = acc\<lparr>balance := balance acc + pnl pos\<rparr>;
              acc2 = acc1\<lparr>positions := splice1 posIndex (positions acc1)\<rparr>
          in notifyListeners (updateEquity (L\<lparr>accountState := acc2\<rparr>)))"

text \<open>
  The callback of \<^verbatim>\<open>positions.map\<close> in \<^verbatim>\<open>tickMarket\<close>; \<open>r\<close> is the value of
  \<^verbatim>\<open>Math.random()\<close> drawn for this position. The side of a position has the type of the
  action it was copied from; as in the source, whatever is not a BUY takes the branch of a SELL.
\<close>

definition markPosition :: "real \<Rightarrow> TradePosition \<Rightarrow> TradePosition" where
  "markPosition r pos =
     (let volatility = entryPrice_pos pos * 0.0001;
          move = (r - 0.5) * volatility;
          newPrice = currentPrice pos + move;
          priceDiff = newPrice - entryPrice_pos pos;
          direction = (if type pos = BUY then 1 else -1);
          pnl' = priceDiff * direction * lots pos * 100000
      in if type pos = BUY then
           (if newPrice \<le> sl pos
              then pos\<lparr>currentPrice := newPrice, pnl := pnl', status := CLOSED, closeReason := Some SL\<rparr>
            else if newPrice \<ge> tp pos
              then pos\<lparr>currentPrice := newPrice, pnl := pnl', status := CLOSED, closeReason := Some TP\<rparr>
            else pos\<lparr>currentPrice := newPrice, pnl := pnl'\<rparr>)
         else
           (if newPrice \<ge> sl pos
              then pos\<lparr>currentPrice := newPrice, pnl := pnl', status := CLOSED, closeReason := Some SL\<rparr>
            else if newPrice \<le> tp pos
              then pos\<lparr>currentPrice := newPrice, pnl := pnl', status := CLOSED, closeReason := Some TP\<rparr>
            else pos\<lparr>currentPrice := newPrice, pnl := pnl'\<rparr>))"

text \<open>
  \<^verbatim>\<open>positions.map(...)\<close> visits the positions in order and draws one random number per
  position: the \<open>i\<close>-th element visited uses \<open>rnd i\<close>.
\<close>

fun markAll :: "(nat \<Rightarrow> real) \<Rightarrow> nat \<Rightarrow> TradePosition list \<Rightarrow> TradePosition list" where
  "markAll rnd i [] = []"
| "markAll rnd i (p # ps) = markPosition (rnd i) p # markAll rnd (Suc i) ps"

text \<open>\<^verbatim>\<open>closed.forEach(p => { accountState.balance += p.pnl })\<close>.\<close>

definition realize :: "TradePosition list \<Rightarrow> real \<Rightarrow> real" where
  "realize cs b = foldl (\<lambda>bal p. bal + pnl p) b cs"

definition tickMarket :: "(nat \<Rightarrow> real) \<Rightarrow> Ledger \<Rightarrow> Ledger" where
  "tickMarket rnd L =
     (if length (positions (accountState L)) = 0 then L
      else
        let acc = accountState L;
            acc1 = acc\<lparr>positions := markAll rnd 0 (positions acc)\<rparr>;
            closedPs = filter (\<lambda>p. status p = CLOSED) (positions acc1);
            acc2 = acc1\<lparr>balance := realize closedPs (balance acc1)\<rparr>;
            acc3 = acc2\<lparr>positions := filter (\<lambda>p. status p = OPEN) (positions acc2)\<rparr>
        in notifyListeners (updateEquity (L\<lparr>accountState := acc3\<rparr>)))"


subsection \<open>Invariants and the spec's reading of a tick\<close>

text \<open>The open set is the array \<open>positions\<close>; every element of it is to carry status \<open>OPEN\<close>.\<close>

definition allOpen :: "AccountState \<Rightarrow> bool" where
  "allOpen a = list_all (\<lambda>p. status p = OPEN) (positions a)"

definition openPnl :: "AccountState \<Rightarrow> real" where
  "openPnl a = sum_list (map pnl (filter (\<lambda>p. status p = OPEN) (positions a)))"

text \<open>
  The account invariant of the spec: equity is balance plus the pnl of the open positions, free
  margin is equity minus used margin; and only open positions are kept in the array.
\<close>

definition accountInv :: "AccountState \<Rightarrow> bool" where
  "accountInv a =
     (equity a = balance a + openPnl a \<and> freeMargin a = equity a - marginUsed a \<and> allOpen a)"

text \<open>
  The spec's words for a tick, to compare \<open>markPosition\<close> with: the direction of a side, and
  the stop conditions in the stated order.
\<close>

definition spec_direction :: "Action \<Rightarrow> real" where
  "spec_direction t = (if t = BUY then 1 else - 1)"

definition spec_stop :: "Action \<Rightarrow> real \<Rightarrow> real \<Rightarrow> real \<Rightarrow> CloseReason option" where
  "spec_stop t price stopL takeP =
     (if t = BUY then (if price \<le> stopL then Some SL else if price \<ge> takeP then Some TP else None)
      else (if price \<ge> stopL then Some SL else if price \<le> takeP then Some TP else None))"

subsection \<open>A concrete ledger\<close>

definition demoSignal :: TradeExecution where
  "demoSignal = \<lparr>action = BUY, orderType = MARKET, entryPrice = 2000, stopLoss = 1990,
     takeProfit1 = 2000.05, takeProfit2 = 2020, riskRewardRatio = 2, suggestedLeverage = 1,
     lotSizeCalculation = 1, confidenceScore = 80, invalidationLevel = 1985\<rparr>"

text \<open>One listener subscribed, then one BUY opened on the initial account.\<close>

definition demoLedger :: Ledger where
  "demoLedger =
     fst (executePaperTrade ''p1'' 100001 0 demoSignal ''XAUUSD''
            (subscribeToAccountUpdates 7 initialLedger))"

section \<open>Market Activity Filter (src/App.tsx, isMarketActive)\<close>

text \<open>\<^verbatim>\<open>CandleData\<close>; \<^verbatim>\<open>open\<close> is \<open>open_c\<close> (\<open>open\<close> is a constant of HOL).\<close>

record CandleData =
  time :: nat
  open_c :: real
  high :: real
  low :: real
  close :: real

text \<open>
  The quotient \<^verbatim>\<open>(c.high - c.low) / c.open\<close> is the one division by a value of the input in the
  modelled code. JavaScript does not fail on a zero divisor: the quotient is an infinity or NaN,
  which then runs through the sum, the average and the comparison. The model keeps these values
  (zero is read as positive zero); rounding is not modelled.
\<close>

datatype jsnum = Fin real | PInf | NInf | NaN

definition js_div :: "real \<Rightarrow> real \<Rightarrow> jsnum" where
  "js_div a b =
     (if b \<noteq> 0 then Fin (a / b) else if a > 0 then PInf else if a < 0 then NInf else NaN)"

fun js_add :: "jsnum \<Rightarrow> jsnum \<Rightarrow> jsnum" where
  "js_add (Fin a) (Fin b) = Fin (a + b)"
| "js_add NaN y = NaN"
| "js_add x NaN = NaN"
| "js_add PInf NInf = NaN"
| "js_add NInf PInf = NaN"
| "js_add PInf y = PInf"
| "js_add x PInf = PInf"
| "js_add NInf y = NInf"
| "js_add x NInf = NInf"

text \<open>Division by \<^verbatim>\<open>ranges.length\<close>, which is at least 3 where it is used.\<close>

fun js_div_len :: "jsnum \<Rightarrow> nat \<Rightarrow> jsnum" where
  "js_div_len (Fin a) n = Fin (a / real n)"
| "js_div_len x n = x"

fun js_gt :: "jsnum \<Rightarrow> real \<Rightarrow> bool" where
  "js_gt (Fin a) t = (a > t)"
| "js_gt PInf t = True"
| "js_gt NInf t = False"
| "js_gt NaN t = False"

definition isMarketActive :: "CandleData list \<Rightarrow> bool" where
  "isMarketActive candles =
     (if length candles < 3 then True
      else
        let ranges = map (\<lambda>c. js_div (high c - low c) (open_c c)) candles;
            avgRange = js_div_len (foldl (\<lambda>a b. js_add a b) (Fin 0) ranges) (length ranges);
            threshold = 0.00015
        in js_gt avgRange threshold)"

text \<open>The spec's words: the average of the per-bar range ratio, in exact arithmetic.\<close>

definition spec_averageRange :: "CandleData list \<Rightarrow> real" where
  "spec_averageRange bars =
     sum_list (map (\<lambda>c. (high c - low c) / open_c c) bars) / real (length bars)"

definition flatBar :: "real \<Rightarrow> CandleData" where
  "flatBar w = \<lparr>time = 0, open_c = 100000, high = 100000 + w, low = 100000, close = 100000\<rparr>"

section \<open>Analysis Gateway (src/unnamed/part_000, imported as services/geminiService)\<close>

text \<open>
  The parsed response of the oracle is a JavaScript object, not a checked \<^verbatim>\<open>AnalysisResult\<close>:
  any field may be missing, and the cast \<^verbatim>\<open>as AnalysisResult\<close> checks nothing. A field is
  therefore an option, \<open>None\<close> for \<^verbatim>\<open>undefined\<close>; a field that is present holds a value of the
  type the response schema gives it. Fields carry the suffix \<open>_j\<close>. Of the result only the
  fields the gateway computes are kept (name, price, execution); the others are copied from
  the response unchanged.
\<close>

record ExecutionJson =
  action_j :: "Action option"
  orderType_j :: "string option"
  entryPrice_j :: "real option"
  stopLoss_j :: "real option"
  takeProfit1_j :: "real option"
  takeProfit2_j :: "real option"
  riskRewardRatio_j :: "real option"
  suggestedLeverage_j :: "real option"
  lotSizeCalculation_j :: "real option"
  confidenceScore_j :: "real option"
  invalidationLevel_j :: "real option"

record ResultJson =
  assetName_j :: "string option"
  currentPrice_j :: "real option"
  searchPrice_j :: "real option"
  execution_j :: "ExecutionJson option"

text \<open>What \<^verbatim>\<open>ai.models.generateContent\<close> does: it throws, or it answers with or without text;
  \<^verbatim>\<open>JSON.parse\<close> of the text throws or gives the parsed object.\<close>

record ApiError =
  errString :: string
  errMessage :: "string option"
  errStatus :: "string option"

datatype AiReply = Throws ApiError | NoText | BadJson ApiError | Json ResultJson

text \<open>\<^verbatim>\<open>a || b\<close> on an optional number: \<open>a\<close> unless it is undefined or 0.\<close>

definition js_or :: "real option \<Rightarrow> real option \<Rightarrow> real option" where
  "js_or a b = (case a of None \<Rightarrow> b | Some v \<Rightarrow> if v = 0 then b else Some v)"

text \<open>The same on an optional non-empty string or enumeration value.\<close>

definition js_orv :: "'a option \<Rightarrow> 'a option \<Rightarrow> 'a option" where
  "js_orv a b = (case a of None \<Rightarrow> b | Some v \<Rightarrow> Some v)"

text \<open>\<^verbatim>\<open>parsed.execution?.f\<close>.\<close>

definition optField :: "(ExecutionJson \<Rightarrow> 'a option) \<Rightarrow> ExecutionJson option \<Rightarrow> 'a option" where
  "optField f e = (case e of None \<Rightarrow> None | Some x \<Rightarrow> f x)"

text \<open>
  \<^verbatim>\<open>{ ...defaults, ...parsed.execution }\<close>: a field that the spread object has wins, any other
  field keeps the value written before the spread.
\<close>

definition spreadOver :: "ExecutionJson \<Rightarrow> ExecutionJson option \<Rightarrow> ExecutionJson" where
  "spreadOver d e =
     (case e of None \<Rightarrow> d
      | Some x \<Rightarrow>
        \<lparr>action_j = js_orv (action_j x) (action_j d),
         orderType_j = js_orv (orderType_j x) (orderType_j d),
         entryPrice_j = js_orv (entryPrice_j x) (entryPrice_j d),
         stopLoss_j = js_orv (stopLoss_j x) (stopLoss_j d),
         takeProfit1_j = js_orv (takeProfit1_j x) (takeProfit1_j d),
         takeProfit2_j = js_orv (takeProfit2_j x) (takeProfit2_j d),
         riskRewardRatio_j = js_orv (riskRewardRatio_j x) (riskRewardRatio_j d),
         suggestedLeverage_j = js_orv (suggestedLeverage_j x) (suggestedLeverage_j d),
         lotSizeCalculation_j = js_orv (lotSizeCalculation_j x) (lotSizeCalculation_j d),
         confidenceScore_j = js_orv (confidenceScore_j x) (confidenceScore_j d),
         invalidationLevel_j = js_orv (invalidationLevel_j x) (invalidationLevel_j d)\<rparr>)"

definition emptyExecution :: ExecutionJson where
  "emptyExecution = \<lparr>action_j = None, orderType_j = None, entryPrice_j = None, stopLoss_j = None,
     takeProfit1_j = None, takeProfit2_j = None, riskRewardRatio_j = None,
     suggestedLeverage_j = None, lotSizeCalculation_j = None, confidenceScore_j = None,
     invalidationLevel_j = None\<rparr>"

text \<open>
  \<^verbatim>\<open>analyzeCharts\<close>, from the reply of the oracle on. \<open>ctx\<close> is the optional
  \<^verbatim>\<open>marketContext\<close> (symbol and price). Whatever is thrown inside the \<^verbatim>\<open>try\<close> is replaced by
  one fixed error.
\<close>

definition analyzeCharts_result :: "(string \<times> real) option \<Rightarrow> ResultJson \<Rightarrow> ResultJson" where
  "analyzeCharts_result ctx parsed =
     (let ctxSymbol = (case ctx of None \<Rightarrow> None | Some (s, p) \<Rightarrow> if s = [] then None else Some s);
          ctxPrice = (case ctx of None \<Rightarrow> None | Some (s, p) \<Rightarrow> Some p);
          e = execution_j parsed
      in parsed\<lparr>
           assetName_j := js_orv ctxSymbol (assetName_j parsed),
           currentPrice_j := js_or (js_or (currentPrice_j parsed) ctxPrice) (Some 0),
           execution_j := Some (spreadOver
             (emptyExecution\<lparr>
                action_j := js_orv (optField action_j e) (Some WAIT),
                confidenceScore_j := js_or (optField confidenceScore_j e) (Some 0),
                entryPrice_j := js_or (js_or (optField entryPrice_j e) ctxPrice) (Some 0),
                stopLoss_j := js_or (optField stopLoss_j e) (Some 0),
                takeProfit1_j := js_or (optField takeProfit1_j e) (Some 0)\<rparr>) e)\<rparr>)"

definition analyzeCharts :: "bool \<Rightarrow> (string \<times> real) option \<Rightarrow> AiReply \<Rightarrow> string + ResultJson" where
  "analyzeCharts apiKey ctx reply =
     (if \<not> apiKey then Inl ''API Key is missing''
      else case reply of
             Json parsed \<Rightarrow> Inr (analyzeCharts_result ctx parsed)
           | _ \<Rightarrow> Inl ''Failed to analyze charts. Please ensure you uploaded a valid trading chart.'')"

text \<open>\<^verbatim>\<open>String.prototype.includes\<close>.\<close>

fun includes_str :: "string \<Rightarrow> string \<Rightarrow> bool" where
  "includes_str [] pat = (pat = [])"
| "includes_str (c # cs) pat = (take (length pat) (c # cs) = pat \<or> includes_str cs pat)"

text \<open>The \<^verbatim>\<open>catch\<close> of \<^verbatim>\<open>analyzeMultiTimeframeAgent\<close>: the message of the error it throws.\<close>

definition agentCatch :: "ApiError \<Rightarrow> string" where
  "agentCatch e =
     (if includes_str (errString e) ''429''
         \<or> (case errMessage e of None \<Rightarrow> False | Some m \<Rightarrow> includes_str m ''429'')
         \<or> errStatus e = Some ''RESOURCE_EXHAUSTED''
      then ''RATE_LIMIT''
      else ''Agent failed to correlate timeframes. Please check chart data.'')"

definition emptyResponseError :: ApiError where
  "emptyResponseError = \<lparr>errString = ''Error: Empty response from AI'',
     errMessage = Some ''Empty response from AI'', errStatus = None\<rparr>"

text \<open>
  \<^verbatim>\<open>analyzeMultiTimeframeAgent\<close>, from the reply on: \<open>symb\<close> and \<open>livePrice\<close> are
  \<^verbatim>\<open>data.symbol\<close> and \<^verbatim>\<open>data.livePrice\<close>.
\<close>

definition analyzeMultiTimeframeAgent_result :: "string \<Rightarrow> real \<Rightarrow> ResultJson \<Rightarrow> ResultJson" where
  "analyzeMultiTimeframeAgent_result symb livePrice parsed =
     parsed\<lparr>
       assetName_j := Some symb,
       currentPrice_j := Some livePrice,
       searchPrice_j := Some 0,
       execution_j := Some ((spreadOver emptyExecution (execution_j parsed))
                              \<lparr>entryPrice_j := Some livePrice\<rparr>)\<rparr>"

definition analyzeMultiTimeframeAgent ::
  "bool \<Rightarrow> string \<Rightarrow> real \<Rightarrow> AiReply \<Rightarrow> string + ResultJson" where
  "analyzeMultiTimeframeAgent apiKey symb livePrice reply =
     (if \<not> apiKey then Inl ''API Key is missing''
      else case reply of
             Throws e \<Rightarrow> Inl (agentCatch e)
           | NoText \<Rightarrow> Inl (agentCatch emptyResponseError)
           | BadJson e \<Rightarrow> Inl (agentCatch e)
           | Json parsed \<Rightarrow> Inr (analyzeMultiTimeframeAgent_result symb livePrice parsed))"

text \<open>A result has every monetary field of its execution defined.\<close>

definition monetaryDefined :: "ResultJson \<Rightarrow> bool" where
  "monetaryDefined r =
     (case execution_j r of None \<Rightarrow> False
      | Some e \<Rightarrow> entryPrice_j e \<noteq> None \<and> stopLoss_j e \<noteq> None
                  \<and> takeProfit1_j e \<noteq> None \<and> takeProfit2_j e \<noteq> None)"

text \<open>A response that holds the two required fields of the schema and nothing else.\<close>

definition minimalReply :: ResultJson where
  "minimalReply = \<lparr>assetName_j = Some ''XAUUSD'', currentPrice_j = None, searchPrice_j = None,
     execution_j = Some (emptyExecution\<lparr>action_j := Some BUY, confidenceScore_j := Some 80\<rparr>)\<rparr>"

section \<open>Agent Scheduler (src/App.tsx)\<close>

datatype AgentStatus =
  IDLE | SCANNING_HTF | SCANNING_MTF | SCANNING_LTF | SCANNING_1m | ANALYZING | EXECUTING | COOLDOWN

record AgentConfig =
  isActive :: bool
  intervalSeconds :: nat
  minConfidence :: real
  riskPerTrade :: real

datatype LogType = INFO | SUCCESS | WARNING | ERROR

text \<open>
  The messages of the log, one constructor per template string of the source, with the values
  the template interpolates. The random id and the clock time of a log entry are left out.
\<close>

datatype LogMessage =
    AgentActivated
  | AgentDeactivated
  | WaitingForChart string
  | MarketFlat
  | AnalyzingConfluence string
  | ScalpSignal Action real real
  | LowConfidence real
  | StructureNeutral
  | QuotaLimitHit
  | CooldownComplete
  | AgentError string

record AgentLog =
  message :: LogMessage
  type_log :: LogType

record MarketSnapshot =
  image_snap :: string
  symbol :: string
  timeframe :: string
  currentPrice_snap :: real
  recentCandles :: "CandleData list"

text \<open>The result as the scheduler reads it, at its declared type.\<close>

record AnalysisResult =
  assetName :: string
  execution :: TradeExecution

text \<open>
  \<open>App\<close> is a function component. Each call of it binds \<^verbatim>\<open>agentStatus\<close>, \<^verbatim>\<open>agentConfig\<close> and
  \<^verbatim>\<open>activeSymbol\<close> with \<^verbatim>\<open>const\<close> and defines \<^verbatim>\<open>runAgentCycle\<close> as a closure over these
  bindings. The setters never mutate a bound value (\<^verbatim>\<open>toggleAgent\<close> builds a new object with
  \<^verbatim>\<open>{ ...prev, isActive: !prev.isActive }\<close>); they make the next render bind new ones. The effect
  that starts the loop depends on \<^verbatim>\<open>[agentConfig.isActive]\<close> alone, so the closure handed to
  \<^verbatim>\<open>setInterval\<close>, and the callback it hands to \<^verbatim>\<open>setTimeout\<close>, keep the bindings of the render
  in which \<^verbatim>\<open>isActive\<close> changed. \<open>Render\<close> holds the bindings of one render; the live values
  are fields of \<open>App\<close> and are what the setters change.
\<close>

record Render =
  agentStatus_r :: AgentStatus
  agentConfig_r :: AgentConfig
  activeSymbol_r :: string

datatype Callback = SetTimeframe string | Resume Render

text \<open>
  The state: the values held by \<^verbatim>\<open>useState\<close> and \<^verbatim>\<open>useRef\<close>, the timeframe shown by the chart,
  and the timers of the runtime. An interval is \<open>(handle, period in ms, render of its closure)\<close>,
  a pending timeout is \<open>(delay in ms, callback)\<close>.
\<close>

record App =
  agentStatus :: AgentStatus
  agentConfig :: AgentConfig
  agentLogs :: "AgentLog list"
  analysisResult :: "AnalysisResult option"
  activeSymbol :: string
  agentTimerRef :: "nat option"
  intervals :: "(nat \<times> nat \<times> Render) list"
  timeouts :: "(nat \<times> Callback) list"
  nextHandle :: nat
  chartTimeframe :: string

text \<open>
  What the outside gives to one cycle: whether the chart is mounted (\<^verbatim>\<open>chartRef.current\<close>), for
  each of the three captures whether the chart reports ready and the snapshot it returns, and
  the outcome of \<^verbatim>\<open>analyzeMultiTimeframeAgent\<close> (the message of the error thrown, or the
  result).
\<close>

record Capture =
  ready :: bool
  snapshot :: "MarketSnapshot option"

record World =
  chartMounted :: bool
  htf :: Capture
  mtf :: Capture
  vltf :: Capture
  agentAnalysis :: "string + AnalysisResult"

definition initialApp :: App where
  "initialApp = \<lparr>agentStatus = IDLE,
     agentConfig = \<lparr>isActive = False, intervalSeconds = 60, minConfidence = 75, riskPerTrade = 1\<rparr>,
     agentLogs = [], analysisResult = None, activeSymbol = ''XAUUSD'', agentTimerRef = None,
     intervals = [], timeouts = [], nextHandle = 1, chartTimeframe = ''15m''\<rparr>"

definition render :: "App \<Rightarrow> Render" where
  "render st = \<lparr>agentStatus_r = agentStatus st, agentConfig_r = agentConfig st,
     activeSymbol_r = activeSymbol st\<rparr>"

text \<open>\<^verbatim>\<open>setAgentLogs(prev => [newLog, ...prev].slice(0, 50))\<close>.\<close>

definition addAgentLog :: "LogMessage \<Rightarrow> LogType \<Rightarrow> App \<Rightarrow> App" where
  "addAgentLog m t st = st\<lparr>agentLogs := take 50 (\<lparr>message = m, type_log = t\<rparr> # agentLogs st)\<rparr>"

definition setAgentStatus :: "AgentStatus \<Rightarrow> App \<Rightarrow> App" where
  "setAgentStatus s st = st\<lparr>agentStatus := s\<rparr>"

definition setTimeout :: "Callback \<Rightarrow> nat \<Rightarrow> App \<Rightarrow> App" where
  "setTimeout cb ms st = st\<lparr>timeouts := timeouts st @ [(ms, cb)]\<rparr>"

text \<open>\<^verbatim>\<open>agentTimerRef.current = setInterval(runAgentCycle, ms)\<close> in a closure of render \<open>r\<close>.\<close>

definition setIntervalRef :: "Render \<Rightarrow> nat \<Rightarrow> App \<Rightarrow> App" where
  "setIntervalRef r ms st =
     st\<lparr>intervals := intervals st @ [(nextHandle st, ms, r)],
        agentTimerRef := Some (nextHandle st),
        nextHandle := Suc (nextHandle st)\<rparr>"

text \<open>\<^verbatim>\<open>if (agentTimerRef.current) clearInterval(agentTimerRef.current)\<close>; the ref keeps its value.\<close>

definition clearAgentTimer :: "App \<Rightarrow> App" where
  "clearAgentTimer st =
     (case agentTimerRef st of
        None \<Rightarrow> st
      | Some h \<Rightarrow> if h = 0 then st else st\<lparr>intervals := filter (\<lambda>(h', ms, r). h' \<noteq> h) (intervals st)\<rparr>)"

text \<open>
  \<^verbatim>\<open>captureFrame(tf)\<close>. The two waits (2000 ms, and 1500 ms when the chart is not ready)
  change nothing in the state and are not modelled.
\<close>

definition captureFrame :: "string \<Rightarrow> bool \<Rightarrow> Capture \<Rightarrow> App \<Rightarrow> App \<times> MarketSnapshot option" where
  "captureFrame tf mounted cap st =
     (if \<not> mounted then (st, None)
      else
        let st1 = st\<lparr>chartTimeframe := tf\<rparr>;
            st2 = (if \<not> ready cap then addAgentLog (WaitingForChart tf) WARNING st1 else st1)
        in (st2, snapshot cap))"

text \<open>Step 5 of the cycle, the execution logic on the result of the analysis.\<close>

definition executionLogic :: "Render \<Rightarrow> AnalysisResult \<Rightarrow> App \<Rightarrow> App" where
  "executionLogic r result st =
     (if action (execution result) \<noteq> WAIT then
        (if confidenceScore (execution result) \<ge> minConfidence (agentConfig_r r) then
           setTimeout (SetTimeframe ''15m'') 2000
             (addAgentLog
                (ScalpSignal (action (execution result)) (entryPrice (execution result))
                   (confidenceScore (execution result))) SUCCESS
                (setAgentStatus EXECUTING st))
         else
           setAgentStatus COOLDOWN
             (addAgentLog (LowConfidence (confidenceScore (execution result))) WARNING st))
      else
        setAgentStatus COOLDOWN (addAgentLog StructureNeutral INFO st))"

text \<open>
  The body of the \<^verbatim>\<open>try\<close>. \<open>Inl (msg, st)\<close> is \<^verbatim>\<open>throw new Error(msg)\<close> in state \<open>st\<close>: what
  was set before the throw stays set.
\<close>

definition cycleBody :: "Render \<Rightarrow> World \<Rightarrow> App \<Rightarrow> (string \<times> App) + App" where
  "cycleBody r w st =
     (case captureFrame ''4h'' (chartMounted w) (htf w) (setAgentStatus SCANNING_HTF st) of
        (st1, None) \<Rightarrow> Inl (''Failed to capture HTF'', st1)
      | (st1, Some htfSnapshot) \<Rightarrow>
     (case captureFrame ''15m'' (chartMounted w) (mtf w) (setAgentStatus SCANNING_MTF st1) of
        (st2, None) \<Rightarrow> Inl (''Failed to capture MTF'', st2)
      | (st2, Some ltfSnapshot) \<Rightarrow>
     (case captureFrame ''1m'' (chartMounted w) (vltf w) (setAgentStatus SCANNING_1m st2) of
        (st3, None) \<Rightarrow> Inl (''Failed to capture 1m'', st3)
      | (st3, Some vltfSnapshot) \<Rightarrow>
        if \<not> isMarketActive (recentCandles vltfSnapshot) then
          Inr (setTimeout (SetTimeframe ''15m'') 1000
                 (setAgentStatus COOLDOWN (addAgentLog MarketFlat WARNING st3)))
        else
          let st4 = addAgentLog (AnalyzingConfluence (activeSymbol_r r)) INFO
                      (setAgentStatus ANALYZING st3)
          in case agentAnalysis w of
               Inl msg \<Rightarrow> Inl (msg, st4)
             | Inr result \<Rightarrow> Inr (executionLogic r result (st4\<lparr>analysisResult := Some result\<rparr>)))))"

text \<open>The \<^verbatim>\<open>catch\<close> of the cycle.\<close>

definition cycleCatch :: "Render \<Rightarrow> string \<Rightarrow> App \<Rightarrow> App" where
  "cycleCatch r msg st =
     (if msg = ''RATE_LIMIT'' then
        setTimeout (Resume r) 60000
          (clearAgentTimer (setAgentStatus COOLDOWN (addAgentLog QuotaLimitHit ERROR st)))
      else
        setAgentStatus COOLDOWN (addAgentLog (AgentError msg) ERROR st))"

text \<open>
  \<^verbatim>\<open>runAgentCycle\<close> of render \<open>r\<close>, from its call to the end of its last continuation. The guard
  reads the status bound by the render.
\<close>

definition runAgentCycle :: "Render \<Rightarrow> World \<Rightarrow> App \<Rightarrow> App" where
  "runAgentCycle r w st =
     (if agentStatus_r r = EXECUTING \<or> \<not> chartMounted w then st
      else case cycleBody r w st of
             Inl (msg, st') \<Rightarrow> cycleCatch r msg st'
           | Inr st' \<Rightarrow> st')"

text \<open>
  The callback of the 60 s timeout, and the effect on \<^verbatim>\<open>agentConfig.isActive\<close>. Both call
  \<^verbatim>\<open>runAgentCycle()\<close> without awaiting it and arm the interval in the same task, so the interval
  is armed before the cycle reaches its end: the model arms it first and then runs the cycle.
\<close>

definition resumeAgent :: "Render \<Rightarrow> World \<Rightarrow> App \<Rightarrow> App" where
  "resumeAgent r w st =
     (let st1 = addAgentLog CooldownComplete INFO st
      in if isActive (agentConfig_r r)
         then runAgentCycle r w (setIntervalRef r (intervalSeconds (agentConfig_r r) * 1000) st1)
         else st1)"

definition agentLoopEffect :: "Render \<Rightarrow> World \<Rightarrow> App \<Rightarrow> App" where
  "agentLoopEffect r w st =
     (if isActive (agentConfig_r r) then
        runAgentCycle r w
          (setIntervalRef r (intervalSeconds (agentConfig_r r) * 1000)
             (addAgentLog AgentActivated INFO st))
      else
        addAgentLog AgentDeactivated WARNING (setAgentStatus IDLE (clearAgentTimer st)))"

text \<open>
  \<^verbatim>\<open>toggleAgent\<close> and the render it causes: \<^verbatim>\<open>isActive\<close> flips, the cleanup of the previous
  effect clears the timer of the ref, and the effect runs in the new render.
\<close>

definition toggleAgent :: "World \<Rightarrow> App \<Rightarrow> App" where
  "toggleAgent w st =
     (let st1 = st\<lparr>agentConfig := (agentConfig st)\<lparr>isActive := \<not> isActive (agentConfig st)\<rparr>\<rparr>
      in agentLoopEffect (render st1) w (clearAgentTimer st1))"

text \<open>The \<open>k\<close>-th pending timeout fires and leaves the queue.\<close>

definition fireTimeout :: "nat \<Rightarrow> World \<Rightarrow> App \<Rightarrow> App" where
  "fireTimeout k w st =
     (if k < length (timeouts st) then
        let cb = snd (timeouts st ! k);
            st1 = st\<lparr>timeouts := take k (timeouts st) @ drop (Suc k) (timeouts st)\<rparr>
        in case cb of
             SetTimeframe tf \<Rightarrow> if chartMounted w then st1\<lparr>chartTimeframe := tf\<rparr> else st1
           | Resume r \<Rightarrow> resumeAgent r w st1
      else st)"

text \<open>The interval with handle \<open>h\<close> fires: the closure it holds runs one cycle.\<close>

definition fireInterval :: "nat \<Rightarrow> World \<Rightarrow> App \<Rightarrow> App" where
  "fireInterval h w st =
     (case find (\<lambda>(h', ms, r). h' = h) (intervals st) of
        None \<Rightarrow> st
      | Some (h', ms, r) \<Rightarrow> runAgentCycle r w st)"

subsection \<open>The spec's Execution Policy\<close>

datatype Decision = EXECUTE | REJECT_WAIT | REJECT_LOW_CONFIDENCE

definition spec_decide :: "TradeExecution \<Rightarrow> real \<Rightarrow> Decision" where
  "spec_decide signal minConf =
     (if action signal = WAIT then REJECT_WAIT
      else if confidenceScore signal \<ge> minConf then EXECUTE
      else REJECT_LOW_CONFIDENCE)"

subsection \<open>AnalysisView: the auto-execution effect\<close>

datatype BridgeStatus = BRIDGE_IDLE | SENDING | BRIDGE_SUCCESS | FAILED

text \<open>
  \<^verbatim>\<open>handlePaperExecute\<close> and the effect on \<^verbatim>\<open>[result, autoExecute]\<close> of \<^verbatim>\<open>AnalysisView\<close>, which is
  rendered with \<^verbatim>\<open>autoExecute = agentConfig.isActive\<close>. The status goes to \<open>BRIDGE_SUCCESS\<close>
  after 500 ms and is never set back to idle.
\<close>

definition handlePaperExecute ::
  "AnalysisResult \<Rightarrow> string \<Rightarrow> nat \<Rightarrow> nat \<Rightarrow> BridgeStatus \<times> Ledger \<Rightarrow> BridgeStatus \<times> Ledger" where
  "handlePaperExecute result uuid tk now bl =
     (if action (execution result) = WAIT then bl
      else (SENDING, fst (executePaperTrade uuid tk now (execution result) (assetName result) (snd bl))))"

definition autoExecuteEffect ::
  "bool \<Rightarrow> AnalysisResult \<Rightarrow> string \<Rightarrow> nat \<Rightarrow> nat \<Rightarrow> BridgeStatus \<times> Ledger \<Rightarrow> BridgeStatus \<times> Ledger" where
  "autoExecuteEffect autoExecute result uuid tk now bl =
     (if autoExecute \<and> action (execution result) \<noteq> WAIT \<and> fst bl = BRIDGE_IDLE
      then handlePaperExecute result uuid tk now bl
      else bl)"

section \<open>The ledger on the values it is really given\<close>

text \<open>
  \<^verbatim>\<open>executePaperTrade\<close> is declared on \<^verbatim>\<open>TradeExecution\<close>, whose fields are numbers, and is so
  modelled above. It is called by \<^verbatim>\<open>AnalysisView\<close> with \<^verbatim>\<open>result.execution\<close>, the object the
  gateway returns under the unchecked cast \<^verbatim>\<open>as AnalysisResult\<close>: an \<open>ExecutionJson\<close>, in which
  a field may be undefined. This section models the same code on these values. A number of the
  account is then a real or NaN; a field copied from the execution is a real or undefined.
  Both are a \<open>real option\<close>, since an undefined operand of an arithmetic operation or of a
  comparison is converted to NaN. JSON carries no infinity, and sums, differences and products
  of reals are read as exact, so no infinity arises.
\<close>

type_synonym jsreal = "real option"

definition nan_add :: "jsreal \<Rightarrow> jsreal \<Rightarrow> jsreal" where
  "nan_add a b = (case (a, b) of (Some x, Some y) \<Rightarrow> Some (x + y) | _ \<Rightarrow> None)"

definition nan_sub :: "jsreal \<Rightarrow> jsreal \<Rightarrow> jsreal" where
  "nan_sub a b = (case (a, b) of (Some x, Some y) \<Rightarrow> Some (x - y) | _ \<Rightarrow> None)"

definition nan_mul :: "jsreal \<Rightarrow> jsreal \<Rightarrow> jsreal" where
  "nan_mul a b = (case (a, b) of (Some x, Some y) \<Rightarrow> Some (x * y) | _ \<Rightarrow> None)"

text \<open>Division by a literal that is not 0.\<close>

definition nan_div_lit :: "jsreal \<Rightarrow> real \<Rightarrow> jsreal" where
  "nan_div_lit a c = (case a of Some x \<Rightarrow> Some (x / c) | None \<Rightarrow> None)"

text \<open>\<^verbatim>\<open>a == b\<close> on numbers: NaN is equal to nothing, not even to itself.\<close>

definition js_eq :: "jsreal \<Rightarrow> jsreal \<Rightarrow> bool" where
  "js_eq a b = (case (a, b) of (Some x, Some y) \<Rightarrow> x = y | _ \<Rightarrow> False)"

record TradePosition_js =
  id_js :: string
  ticket_js :: nat
  asset_js :: "string option"
  type_js :: "Action option"
  entryPrice_js :: jsreal
  currentPrice_js :: jsreal
  sl_js :: jsreal
  tp_js :: jsreal
  lots_js :: jsreal
  openTime_js :: nat
  pnl_js :: jsreal
  status_js :: PositionStatus
  closeReason_js :: "CloseReason option"

record AccountState_js =
  balance_js :: jsreal
  equity_js :: jsreal
  marginUsed_js :: jsreal
  freeMargin_js :: jsreal
  positions_js :: "TradePosition_js list"

record Ledger_js =
  accountState_js :: AccountState_js
  listeners_js :: "nat list"
  calls_js :: "(nat \<times> AccountState_js) list"

definition initialLedger_js :: Ledger_js where
  "initialLedger_js =
     \<lparr>accountState_js = \<lparr>balance_js = Some INITIAL_BALANCE, equity_js = Some INITIAL_BALANCE,
        marginUsed_js = Some 0, freeMargin_js = Some INITIAL_BALANCE, positions_js = []\<rparr>,
      listeners_js = [], calls_js = []\<rparr>"

definition notifyListeners_js :: "Ledger_js \<Rightarrow> Ledger_js" where
  "notifyListeners_js L =
     L\<lparr>calls_js := calls_js L @ map (\<lambda>l. (l, accountState_js L)) (listeners_js L)\<rparr>"

definition floatingPnL_js :: "TradePosition_js list \<Rightarrow> jsreal" where
  "floatingPnL_js ps = foldl (\<lambda>sum p. nan_add sum (pnl_js p)) (Some 0) ps"

definition updateEquityA_js :: "AccountState_js \<Rightarrow> AccountState_js" where
  "updateEquityA_js a =
     (let a1 = a\<lparr>equity_js := nan_add (balance_js a) (floatingPnL_js (positions_js a))\<rparr>
      in a1\<lparr>freeMargin_js := nan_sub (equity_js a1) (marginUsed_js a1)\<rparr>)"

definition updateEquity_js :: "Ledger_js \<Rightarrow> Ledger_js" where
  "updateEquity_js L = L\<lparr>accountState_js := updateEquityA_js (accountState_js L)\<rparr>"

definition newPosition_js ::
  "string \<Rightarrow> nat \<Rightarrow> nat \<Rightarrow> ExecutionJson \<Rightarrow> string option \<Rightarrow> TradePosition_js" where
  "newPosition_js uuid tk now exe a =
     \<lparr>id_js = uuid, ticket_js = tk, asset_js = a, type_js = action_j exe,
      entryPrice_js = entryPrice_j exe, currentPrice_js = entryPrice_j exe,
      sl_js = stopLoss_j exe, tp_js = takeProfit1_j exe,
      lots_js = lotSizeCalculation_j exe,
      openTime_js = now, pnl_js = Some 0, status_js = OPEN, closeReason_js = None\<rparr>"

definition executePaperTrade_js ::
  "string \<Rightarrow> nat \<Rightarrow> nat \<Rightarrow> ExecutionJson \<Rightarrow> string option \<Rightarrow> Ledger_js
     \<Rightarrow> Ledger_js \<times> TradePosition_js option" where
  "executePaperTrade_js uuid tk now exe a L =
     (if action_j exe = Some WAIT then (L, None)
      else
        let np = newPosition_js uuid tk now exe a;
            acc = accountState_js L;
            acc1 = acc\<lparr>positions_js := np # positions_js acc\<rparr>;
            acc2 = acc1\<lparr>marginUsed_js :=
                     nan_add (marginUsed_js acc1)
                       (nan_div_lit (nan_mul (nan_mul (entryPrice_js np) (lots_js np)) (Some 100)) 100)\<rparr>;
            L1 = updateEquity_js (L\<lparr>accountState_js := acc2\<rparr>)
        in (notifyListeners_js L1, Some np))"

text \<open>
  \<^verbatim>\<open>handlePaperExecute\<close> and the auto-execution effect of \<^verbatim>\<open>AnalysisView\<close> on the result of
  the gateway. Reading \<^verbatim>\<open>result.execution.action\<close> of a result without execution throws, and
  nothing is changed; the gateway never returns such a result.
\<close>

definition handlePaperExecute_js ::
  "ResultJson \<Rightarrow> string \<Rightarrow> nat \<Rightarrow> nat \<Rightarrow> BridgeStatus \<times> Ledger_js \<Rightarrow> BridgeStatus \<times> Ledger_js" where
  "handlePaperExecute_js result uuid tk now bl =
     (case execution_j result of
        None \<Rightarrow> bl
      | Some e \<Rightarrow>
          if action_j e = Some WAIT then bl
          else (SENDING, fst (executePaperTrade_js uuid tk now e (assetName_j result) (snd bl))))"

definition autoExecuteEffect_js ::
  "bool \<Rightarrow> ResultJson \<Rightarrow> string \<Rightarrow> nat \<Rightarrow> nat \<Rightarrow> BridgeStatus \<times> Ledger_js \<Rightarrow> BridgeStatus \<times> Ledger_js" where
  "autoExecuteEffect_js autoExecute result uuid tk now bl =
     (case execution_j result of
        None \<Rightarrow> bl
      | Some e \<Rightarrow>
          if autoExecute \<and> action_j e \<noteq> Some WAIT \<and> fst bl = BRIDGE_IDLE
          then handlePaperExecute_js result uuid tk now bl
          else bl)"

text \<open>The invariant of the claim, with the equality of the program.\<close>

definition openPnl_js :: "AccountState_js \<Rightarrow> jsreal" where
  "openPnl_js a =
     foldl (\<lambda>sum p. nan_add sum (pnl_js p)) (Some 0)
       (filter (\<lambda>p. status_js p = OPEN) (positions_js a))"

definition accountInv_js :: "AccountState_js \<Rightarrow> bool" where
  "accountInv_js a =
     (js_eq (equity_js a) (nan_add (balance_js a) (openPnl_js a))
      \<and> js_eq (freeMargin_js a) (nan_sub (equity_js a) (marginUsed_js a)))"

text \<open>The values of the declared types among the values of the program.\<close>

definition orderTypeName :: "OrderType \<Rightarrow> string" where
  "orderTypeName t = (case t of MARKET \<Rightarrow> ''MARKET'' | LIMIT \<Rightarrow> ''LIMIT'' | STOP \<Rightarrow> ''STOP'')"

definition execution_as_js :: "TradeExecution \<Rightarrow> ExecutionJson" where
  "execution_as_js ex =
     \<lparr>action_j = Some (action ex), orderType_j = Some (orderTypeName (orderType ex)),
      entryPrice_j = Some (entryPrice ex), stopLoss_j = Some (stopLoss ex),
      takeProfit1_j = Some (takeProfit1 ex), takeProfit2_j = Some (takeProfit2 ex),
      riskRewardRatio_j = Some (riskRewardRatio ex),
      suggestedLeverage_j = Some (suggestedLeverage ex),
      lotSizeCalculation_j = Some (lotSizeCalculation ex),
      confidenceScore_j = Some (confidenceScore ex),
      invalidationLevel_j = Some (invalidationLevel ex)\<rparr>"

definition position_as_js :: "TradePosition \<Rightarrow> TradePosition_js" where
  "position_as_js p =
     \<lparr>id_js = id_pos p, ticket_js = ticket p, asset_js = Some (asset p), type_js = Some (type p),
      entryPrice_js = Some (entryPrice_pos p), currentPrice_js = Some (currentPrice p),
      sl_js = Some (sl p), tp_js = Some (tp p), lots_js = Some (lots p),
      openTime_js = openTime p, pnl_js = Some (pnl p), status_js = status p,
      closeReason_js = closeReason p\<rparr>"

definition account_as_js :: "AccountState \<Rightarrow> AccountState_js" where
  "account_as_js a =
     \<lparr>balance_js = Some (balance a), equity_js = Some (equity a),
      marginUsed_js = Some (marginUsed a), freeMargin_js = Some (freeMargin a),
      positions_js = map position_as_js (positions a)\<rparr>"

definition ledger_as_js :: "Ledger \<Rightarrow> Ledger_js" where
  "ledger_as_js L =
     \<lparr>accountState_js = account_as_js (accountState L), listeners_js = listeners L,
      calls_js = map (\<lambda>(l, a). (l, account_as_js a)) (calls L)\<rparr>"

text \<open>
  The run of the agent on a reply that holds only the required fields \<open>action\<close> and
  \<open>confidenceScore\<close>: the gateway returns its result, \<^verbatim>\<open>AnalysisView\<close> is rendered with
  \<^verbatim>\<open>autoExecute\<close> true and its effect hands the execution to the ledger, here the initial one.
\<close>

definition undefinedLotsRun :: "BridgeStatus \<times> Ledger_js" where
  "undefinedLotsRun =
     (case analyzeMultiTimeframeAgent True ''XAUUSD'' 2000 (Json minimalReply) of
        Inl msg \<Rightarrow> (BRIDGE_IDLE, initialLedger_js)
      | Inr result \<Rightarrow>
          autoExecuteEffect_js True result ''p1'' 100001 0 (BRIDGE_IDLE, initialLedger_js))"

section \<open>Concrete runs of the scheduler\<close>

definition readyCapture :: Capture where
  "readyCapture = \<lparr>ready = True,
     snapshot = Some \<lparr>image_snap = ''data:image/jpeg;base64,AAAA'', symbol = ''XAUUSD'',
       timeframe = ''1m'', currentPrice_snap = 2000, recentCandles = []\<rparr>\<rparr>"

definition worldWith :: "string + AnalysisResult \<Rightarrow> World" where
  "worldWith out = \<lparr>chartMounted = True, htf = readyCapture, mtf = readyCapture,
     vltf = readyCapture, agentAnalysis = out\<rparr>"

definition buyResult :: AnalysisResult where
  "buyResult = \<lparr>assetName = ''XAUUSD'', execution = demoSignal\<rparr>"

definition waitResult :: AnalysisResult where
  "waitResult = \<lparr>assetName = ''XAUUSD'', execution = demoSignal\<lparr>action := WAIT\<rparr>\<rparr>"

text \<open>The component is mounted inactive: the effect runs once in the first render.\<close>

definition mountedApp :: App where
  "mountedApp = agentLoopEffect (render initialApp) (worldWith (Inl [])) initialApp"

definition activeRender :: Render where
  "activeRender = \<lparr>agentStatus_r = IDLE,
     agentConfig_r = \<lparr>isActive = True, intervalSeconds = 60, minConfidence = 75, riskPerTrade = 1\<rparr>,
     activeSymbol_r = ''XAUUSD''\<rparr>"

text \<open>
  Run A: the operator activates the agent, the first cycle is rate limited, the operator
  deactivates the agent during the pause, then the 60 s timeout fires.
\<close>

definition runA1 :: App where
  "runA1 = toggleAgent (worldWith (Inl ''RATE_LIMIT'')) mountedApp"

definition runA2 :: App where
  "runA2 = toggleAgent (worldWith (Inl ''RATE_LIMIT'')) runA1"

definition runA3 :: App where
  "runA3 = fireTimeout 0 (worldWith (Inr waitResult)) runA2"

text \<open>
  Run B: the operator activates the agent, the first cycle gets a BUY of confidence 80 against
  the minimum 75, then the 2 s timeout fires.
\<close>

definition runB1 :: App where
  "runB1 = toggleAgent (worldWith (Inr buyResult)) mountedApp"

definition runB2 :: App where
  "runB2 = fireTimeout 0 (worldWith (Inr buyResult)) runB1"

text \<open>The renders and signals of the examples of the Execution Policy.\<close>

definition policyRender :: "real \<Rightarrow> Render" where
  "policyRender m = \<lparr>agentStatus_r = IDLE,
     agentConfig_r = \<lparr>isActive = True, intervalSeconds = 60, minConfidence = m, riskPerTrade = 1\<rparr>,
     activeSymbol_r = ''XAUUSD''\<rparr>"

definition policySignal :: "Action \<Rightarrow> real \<Rightarrow> AnalysisResult" where
  "policySignal a c = \<lparr>assetName = ''XAUUSD'',
     execution = demoSignal\<lparr>action := a, confidenceScore := c\<rparr>\<rparr>"


section \<open>Verification of the Paper Trading Ledger\<close>

lemma foldl_pnl: "foldl (\<lambda>s p. s + pnl p) b ps = b + sum_list (map pnl ps)"
  by (induction ps arbitrary: b) simp_all

lemma floatingPnL_sum: "floatingPnL ps = sum_list (map pnl ps)"
  by (simp add: floatingPnL_def foldl_pnl)

lemma realize_sum: "realize cs b = b + sum_list (map pnl cs)"
  by (simp add: realize_def foldl_pnl)

lemma filter_allOpen: "list_all (\<lambda>p. status p = OPEN) ps \<Longrightarrow> filter (\<lambda>p. status p = OPEN) ps = ps"
  by (induction ps) simp_all

lemma updateEquityA_inv: "allOpen a \<Longrightarrow> accountInv (updateEquityA a)"
  by (simp add: accountInv_def updateEquityA_def Let_def allOpen_def openPnl_def floatingPnL_sum filter_allOpen)

lemma updateEquityA_frame:
  "balance (updateEquityA a) = balance a" "marginUsed (updateEquityA a) = marginUsed a"
  "positions (updateEquityA a) = positions a"
  by (simp_all add: updateEquityA_def Let_def)

lemma accountState_notify: "accountState (notifyListeners L) = accountState L"
  by (simp add: notifyListeners_def)

lemma findIndex_Some: "findIndex P xs = Some i \<Longrightarrow> i < length xs \<and> P (xs ! i) \<and> (\<forall>j<i. \<not> P (xs ! j))"
proof (induction xs arbitrary: i)
  case Nil then show ?case by simp
next
  case (Cons x xs)
  show ?case
  proof (cases "P x")
    case True with Cons.prems show ?thesis by simp
  next
    case False
    with Cons.prems obtain k where k: "findIndex P xs = Some k" "i = Suc k" by auto
    from Cons.IH[OF k(1)] False k(2) show ?thesis by (auto simp: less_Suc_eq_0_disj)
  qed
qed

lemma findIndex_None: "findIndex P xs = None \<longleftrightarrow> (\<forall>x\<in>set xs. \<not> P x)"
  by (induction xs) auto

lemma list_all_splice1: "list_all Q xs \<Longrightarrow> list_all Q (splice1 i xs)"
  by (auto simp: splice1_def list_all_iff dest: in_set_takeD in_set_dropD)

lemma exec_account:
  "action ex \<noteq> WAIT \<Longrightarrow> accountState (fst (executePaperTrade uuid tk now ex a L)) =
     updateEquityA ((accountState L)\<lparr>positions := newPosition uuid tk now ex a # positions (accountState L),
        marginUsed := marginUsed (accountState L) + (entryPrice ex * lotSizeCalculation ex * 100) / 100\<rparr>)"
  by (simp add: executePaperTrade_def Let_def accountState_notify updateEquity_def newPosition_def)

lemma close_account:
  "findIndex (\<lambda>p. id_pos p = i) (positions (accountState L)) = Some k \<Longrightarrow>
   accountState (closePosition i L) =
     updateEquityA ((accountState L)\<lparr>balance := balance (accountState L) + pnl (positions (accountState L) ! k),
        positions := splice1 k (positions (accountState L))\<rparr>)"
  by (simp add: closePosition_def Let_def accountState_notify updateEquity_def)

lemma tick_account:
  "positions (accountState L) \<noteq> [] \<Longrightarrow>
   accountState (tickMarket rnd L) =
     updateEquityA ((accountState L)\<lparr>
        balance := realize (filter (\<lambda>p. status p = CLOSED) (markAll rnd 0 (positions (accountState L)))) (balance (accountState L)),
        positions := filter (\<lambda>p. status p = OPEN) (markAll rnd 0 (positions (accountState L)))\<rparr>)"
  by (simp add: tickMarket_def Let_def accountState_notify updateEquity_def)

text \<open>
  On values of the declared types, each public operation of the ledger keeps the account
  invariant (equity is balance plus the pnl of the open positions, free margin is equity minus
  used margin), and neither \<open>closePosition\<close> nor \<open>tickMarket\<close> changes \<open>marginUsed\<close>: it is
  changed by \<open>executePaperTrade\<close> only and never reduced on close. What happens on an
  execution with an undefined field is the subject of \<open>undefined_lots_break_invariant\<close>.
\<close>

theorem ledger_operations_preserve_invariants:
  assumes "accountInv (accountState L)"
  shows "accountInv (accountState (fst (executePaperTrade uuid tk now ex a L)))
       \<and> accountInv (accountState (closePosition i L))
       \<and> accountInv (accountState (tickMarket rnd L))
       \<and> marginUsed (accountState (closePosition i L)) = marginUsed (accountState L)
       \<and> marginUsed (accountState (tickMarket rnd L)) = marginUsed (accountState L)"
proof -
  from assms have ao: "allOpen (accountState L)" by (simp add: accountInv_def)
  have e: "accountInv (accountState (fst (executePaperTrade uuid tk now ex a L)))"
  proof (cases "action ex = WAIT")
    case True with assms show ?thesis by (simp add: executePaperTrade_def)
  next
    case False
    show ?thesis unfolding exec_account[OF False]
      by (rule updateEquityA_inv) (use ao in \<open>simp add: allOpen_def newPosition_def\<close>)
  qed
  have c: "accountInv (accountState (closePosition i L))
       \<and> marginUsed (accountState (closePosition i L)) = marginUsed (accountState L)"
  proof (cases "findIndex (\<lambda>p. id_pos p = i) (positions (accountState L))")
    case None with assms show ?thesis by (simp add: closePosition_def)
  next
    case (Some k)
    have "accountInv (accountState (closePosition i L))" unfolding close_account[OF Some]
      by (rule updateEquityA_inv) (use ao in \<open>simp add: allOpen_def list_all_splice1\<close>)
    moreover have "marginUsed (accountState (closePosition i L)) = marginUsed (accountState L)"
      unfolding close_account[OF Some] by (simp add: updateEquityA_frame)
    ultimately show ?thesis by simp
  qed
  have t: "accountInv (accountState (tickMarket rnd L))
       \<and> marginUsed (accountState (tickMarket rnd L)) = marginUsed (accountState L)"
  proof (cases "positions (accountState L) = []")
    case True with assms show ?thesis by (simp add: tickMarket_def)
  next
    case False
    have "accountInv (accountState (tickMarket rnd L))" unfolding tick_account[OF False]
      by (rule updateEquityA_inv) (simp add: allOpen_def list_all_iff)
    moreover have "marginUsed (accountState (tickMarket rnd L)) = marginUsed (accountState L)"
      unfolding tick_account[OF False] by (simp add: updateEquityA_frame)
    ultimately show ?thesis by simp
  qed
  from e c t show ?thesis by simp
qed

lemma markAll_length: "length (markAll rnd i ps) = length ps"
  by (induction ps arbitrary: i) simp_all

lemma markAll_nth: "k < length ps \<Longrightarrow> markAll rnd i ps ! k = markPosition (rnd (i + k)) (ps ! k)"
proof (induction ps arbitrary: i k)
  case Nil then show ?case by simp
next
  case (Cons p ps)
  show ?case
  proof (cases k)
    case 0 then show ?thesis by simp
  next
    case (Suc j)
    with Cons.prems have "j < length ps" by simp
    from Cons.IH[OF this, of "Suc i"] Suc show ?thesis by simp
  qed
qed

lemma markPosition_spec:
  fixes r :: real and p :: TradePosition
  defines "price \<equiv> currentPrice p + (r - 0.5) * (entryPrice_pos p * 0.0001)"
  shows "currentPrice (markPosition r p) = price"
    and "pnl (markPosition r p) = (price - entryPrice_pos p) * spec_direction (type p) * lots p * 100000"
    and "spec_stop (type p) price (sl p) (tp p) = Some reason \<Longrightarrow>
           status (markPosition r p) = CLOSED \<and> closeReason (markPosition r p) = Some reason"
    and "spec_stop (type p) price (sl p) (tp p) = None \<Longrightarrow>
           status (markPosition r p) = status p \<and> closeReason (markPosition r p) = closeReason p"
    and "id_pos (markPosition r p) = id_pos p"
  unfolding price_def
  by (auto simp add: markPosition_def Let_def spec_direction_def spec_stop_def split: if_splits)

text \<open>
  Claim C2. A tick with a non-empty open set marks every position: the price moves by
  \<open>(rnd k - 0.5) * (entryPrice * 0.0001)\<close>, the pnl is
  \<open>(price - entryPrice) * direction * lots * 100000\<close> with direction 1 for BUY and -1 otherwise, and
  the stop conditions are tried in the order of \<open>spec_stop\<close> (for a BUY: stop loss when
  \<open>price \<le> sl\<close>, else take profit when \<open>price \<ge> tp\<close>; inverted for a SELL). A position
  that triggers is CLOSED with that reason; after the tick the open set holds exactly the
  positions that did not trigger, and the balance has grown by the pnl of each triggered position,
  counted once.
\<close>

theorem tickMarket_marks_to_market:
  assumes ne: "positions (accountState L) \<noteq> []" and ao: "allOpen (accountState L)"
  shows "let ps = positions (accountState L); ms = markAll rnd 0 ps; L' = tickMarket rnd L in
     length ms = length ps
   \<and> (\<forall>k<length ps.
        let p = ps ! k; q = ms ! k;
            price = currentPrice p + (rnd k - 0.5) * (entryPrice_pos p * 0.0001)
        in currentPrice q = price
         \<and> pnl q = (price - entryPrice_pos p) * spec_direction (type p) * lots p * 100000
         \<and> (case spec_stop (type p) price (sl p) (tp p) of
              Some reason \<Rightarrow> status q = CLOSED \<and> closeReason q = Some reason
            | None \<Rightarrow> status q = OPEN))
   \<and> positions (accountState L') = filter (\<lambda>q. status q = OPEN) ms
   \<and> balance (accountState L') =
       balance (accountState L) + sum_list (map pnl (filter (\<lambda>q. status q = CLOSED) ms))
   \<and> list_all (\<lambda>q. status q = OPEN) (positions (accountState L'))"
proof -
  let ?ps = "positions (accountState L)"
  let ?ms = "markAll rnd 0 ?ps"
  have per: "\<And>k. k < length ?ps \<Longrightarrow>
        (let p = ?ps ! k; q = ?ms ! k;
            price = currentPrice p + (rnd k - 0.5) * (entryPrice_pos p * 0.0001)
        in currentPrice q = price
         \<and> pnl q = (price - entryPrice_pos p) * spec_direction (type p) * lots p * 100000
         \<and> (case spec_stop (type p) price (sl p) (tp p) of
              Some reason \<Rightarrow> status q = CLOSED \<and> closeReason q = Some reason
            | None \<Rightarrow> status q = OPEN))"
  proof -
    fix k assume k: "k < length ?ps"
    from ao k have op: "status (?ps ! k) = OPEN" by (simp add: allOpen_def list_all_length)
    show "?thesis k" using op
      by (simp add: Let_def markAll_nth[OF k] markPosition_spec split: option.split)
  qed
  have pos: "positions (accountState (tickMarket rnd L)) = filter (\<lambda>q. status q = OPEN) ?ms"
    unfolding tick_account[OF ne] by (simp add: updateEquityA_frame)
  have bal: "balance (accountState (tickMarket rnd L)) =
       balance (accountState L) + sum_list (map pnl (filter (\<lambda>q. status q = CLOSED) ?ms))"
    unfolding tick_account[OF ne] by (simp add: updateEquityA_frame realize_sum)
  have opn: "list_all (\<lambda>q. status q = OPEN) (positions (accountState (tickMarket rnd L)))"
    unfolding pos by (simp add: list_all_iff)
  show ?thesis unfolding Let_def using per pos bal opn by (simp add: markAll_length Let_def)
qed

text \<open>
  Claim C3. \<open>executePaperTrade\<close> on a WAIT signal returns nothing and leaves the whole ledger
  (account, listeners, calls) as it was. On BUY or SELL it puts exactly one new position in front
  of the open set, with current price equal to the entry price, pnl 0 and take profit
  \<open>takeProfit1\<close>; used margin grows by \<open>entryPrice * lots\<close>, equity and free margin are
  recomputed, and every listener is called once, in the same step, with the new account.
\<close>

theorem executePaperTrade_opens_one_position:
  "(action ex = WAIT \<longrightarrow> executePaperTrade uuid tk now ex a L = (L, None))
   \<and> (action ex \<noteq> WAIT \<longrightarrow>
        (\<exists>np L'. executePaperTrade uuid tk now ex a L = (L', Some np)
          \<and> positions (accountState L') = np # positions (accountState L)
          \<and> id_pos np = uuid \<and> asset np = a \<and> type np = action ex
          \<and> entryPrice_pos np = entryPrice ex \<and> currentPrice np = entryPrice ex
          \<and> pnl np = 0 \<and> sl np = stopLoss ex \<and> tp np = takeProfit1 ex
          \<and> lots np = lotSizeCalculation ex \<and> status np = OPEN
          \<and> marginUsed (accountState L') =
              marginUsed (accountState L) + entryPrice ex * lotSizeCalculation ex
          \<and> balance (accountState L') = balance (accountState L)
          \<and> equity (accountState L') =
              balance (accountState L') + sum_list (map pnl (positions (accountState L')))
          \<and> freeMargin (accountState L') = equity (accountState L') - marginUsed (accountState L')
          \<and> listeners L' = listeners L
          \<and> calls L' = calls L @ map (\<lambda>l. (l, accountState L')) (listeners L)))"
  by (simp add: executePaperTrade_def Let_def newPosition_def notifyListeners_def updateEquity_def
        updateEquityA_def floatingPnL_sum)

text \<open>
  Claim C10. A tick on an empty open set returns at once: the ledger is unchanged, so no field of
  the account changes and no listener is called.
\<close>

theorem tickMarket_empty_is_silent:
  assumes "positions (accountState L) = []"
  shows "tickMarket rnd L = L \<and> accountState (tickMarket rnd L) = accountState L
       \<and> calls (tickMarket rnd L) = calls L"
  using assms by (simp add: tickMarket_def)

lemma findIndex_splice1:
  "distinct (map f xs) \<Longrightarrow> findIndex (\<lambda>p. f p = i) xs = Some k \<Longrightarrow>
     splice1 k xs = filter (\<lambda>p. f p \<noteq> i) xs"
proof (induction xs arbitrary: k)
  case Nil then show ?case by simp
next
  case (Cons x xs)
  show ?case
  proof (cases "f x = i")
    case True
    with Cons.prems have k: "k = 0" by simp
    from True Cons.prems have "\<forall>y\<in>set xs. f y \<noteq> i" by (auto simp: image_iff)
    then have "filter (\<lambda>p. f p \<noteq> i) xs = xs" by (simp add: filter_id_conv)
    with True k show ?thesis by (simp add: splice1_def)
  next
    case False
    with Cons.prems obtain j where j: "findIndex (\<lambda>p. f p = i) xs = Some j" "k = Suc j" by auto
    from Cons.prems have "distinct (map f xs)" by simp
    from Cons.IH[OF this j(1)] False j(2) show ?thesis by (simp add: splice1_def)
  qed
qed

lemma findIndex_unique:
  assumes "distinct (map f xs)" "findIndex (\<lambda>p. f p = i) xs = Some k" "p \<in> set xs" "f p = i"
  shows "xs ! k = p"
proof -
  from findIndex_Some[OF assms(2)] have "k < length xs" "f (xs ! k) = i" by simp_all
  moreover from assms(1) have "inj_on f (set xs)" by (simp add: distinct_map)
  ultimately show ?thesis using assms(3,4) by (auto dest!: inj_onD[where x="xs ! k" and y=p])
qed

text \<open>
  Claim C4. \<open>closePosition\<close> with an id that no open position carries changes nothing. Ids
  are drawn by \<^verbatim>\<open>crypto.randomUUID()\<close>, hence pairwise distinct in the open set; then the first
  call removes the position with that id and adds its pnl to the balance once, and a second call
  with the same id is a no-op: closing twice is closing once.
\<close>

theorem closePosition_twice_is_once:
  "(i \<notin> id_pos ` set (positions (accountState L)) \<longrightarrow> closePosition i L = L)
   \<and> (distinct (map id_pos (positions (accountState L))) \<longrightarrow>
        closePosition i (closePosition i L) = closePosition i L
      \<and> (\<forall>p\<in>set (positions (accountState L)). id_pos p = i \<longrightarrow>
            positions (accountState (closePosition i L)) =
              filter (\<lambda>q. id_pos q \<noteq> i) (positions (accountState L))
          \<and> balance (accountState (closePosition i L)) = balance (accountState L) + pnl p
          \<and> closePosition i (closePosition i L) = closePosition i L))"
proof -
  let ?ps = "positions (accountState L)"
  have unknown: "closePosition i M = M" if "i \<notin> id_pos ` set (positions (accountState M))" for M
  proof -
    from that have "findIndex (\<lambda>p. id_pos p = i) (positions (accountState M)) = None"
      by (auto simp: findIndex_None)
    then show ?thesis by (simp add: closePosition_def)
  qed
  have known: "positions (accountState (closePosition i L)) = filter (\<lambda>q. id_pos q \<noteq> i) ?ps
      \<and> balance (accountState (closePosition i L)) = balance (accountState L) + pnl p"
    if d: "distinct (map id_pos ?ps)" and p: "p \<in> set ?ps" "id_pos p = i" for p
  proof -
    from p have "findIndex (\<lambda>p. id_pos p = i) ?ps \<noteq> None" by (auto simp: findIndex_None)
    then obtain k where k: "findIndex (\<lambda>p. id_pos p = i) ?ps = Some k" by auto
    from findIndex_unique[OF d k p] have pk: "?ps ! k = p" .
    show ?thesis unfolding close_account[OF k]
      by (simp add: updateEquityA_frame pk findIndex_splice1[OF d k])
  qed
  have twice: "closePosition i (closePosition i L) = closePosition i L"
    if d: "distinct (map id_pos ?ps)"
  proof (cases "i \<in> id_pos ` set ?ps")
    case False
    then show ?thesis by (simp add: unknown)
  next
    case True
    then obtain p where p: "p \<in> set ?ps" "id_pos p = i" by auto
    from known[OF d p] have "i \<notin> id_pos ` set (positions (accountState (closePosition i L)))"
      by auto
    then show ?thesis by (rule unknown)
  qed
  from unknown[of L] known twice show ?thesis by blast
qed

lemmas ledger_eval =
  demoLedger_def demoSignal_def initialLedger_def initialAccount_def INITIAL_BALANCE_def
  subscribeToAccountUpdates_def executePaperTrade_def newPosition_def updateEquity_def
  updateEquityA_def notifyListeners_def floatingPnL_def Let_def

lemma demoLedger_account:
  "accountState demoLedger =
     \<lparr>balance = 100000, equity = 100000, marginUsed = 2000, freeMargin = 98000,
      positions = [\<lparr>id_pos = ''p1'', ticket = 100001, asset = ''XAUUSD'', type = BUY,
        entryPrice_pos = 2000, currentPrice = 2000, sl = 1990, tp = 2000.05, lots = 1,
        openTime = 0, pnl = 0, status = OPEN, closeReason = None\<rparr>]\<rparr>"
  by (simp add: ledger_eval)

lemma demoLedger_inv: "accountInv (accountState demoLedger)"
  by (simp add: demoLedger_account accountInv_def openPnl_def allOpen_def)

theorem ledger_operations_preserve_invariants_witness:
  "accountInv (accountState demoLedger)
   \<and> accountInv (accountState (fst (executePaperTrade ''p2'' 100002 5 demoSignal ''XAUUSD'' demoLedger)))
   \<and> accountInv (accountState (closePosition ''p1'' demoLedger))
   \<and> accountInv (accountState (tickMarket (\<lambda>k. 0.9) demoLedger))
   \<and> marginUsed (accountState (closePosition ''p1'' demoLedger)) = marginUsed (accountState demoLedger)
   \<and> marginUsed (accountState (tickMarket (\<lambda>k. 0.9) demoLedger)) = marginUsed (accountState demoLedger)"
  using demoLedger_inv
    ledger_operations_preserve_invariants [OF demoLedger_inv,
      of "''p2''" 100002 5 demoSignal "''XAUUSD''" "''p1''" "\<lambda>k. 0.9"]
  by simp

theorem tickMarket_marks_to_market_witness:
  "positions (accountState demoLedger) \<noteq> [] \<and> allOpen (accountState demoLedger)
   \<and> positions (accountState (tickMarket (\<lambda>k. 0.9) demoLedger)) = []
   \<and> balance (accountState (tickMarket (\<lambda>k. 0.9) demoLedger)) = 108000"
proof -
  have ne: "positions (accountState demoLedger) \<noteq> []" by (simp add: demoLedger_account)
  have ao: "allOpen (accountState demoLedger)" by (simp add: demoLedger_account allOpen_def)
  have m: "markAll (\<lambda>k. 0.9) 0 (positions (accountState demoLedger)) =
      [\<lparr>id_pos = ''p1'', ticket = 100001, asset = ''XAUUSD'', type = BUY,
        entryPrice_pos = 2000, currentPrice = 2000.08, sl = 1990, tp = 2000.05, lots = 1,
        openTime = 0, pnl = 8000, status = CLOSED, closeReason = Some TP\<rparr>]"
    by (simp add: demoLedger_account markPosition_def Let_def)
  from tickMarket_marks_to_market [OF ne ao, of "\<lambda>k. 0.9"]
  have "positions (accountState (tickMarket (\<lambda>k. 0.9) demoLedger)) = []
      \<and> balance (accountState (tickMarket (\<lambda>k. 0.9) demoLedger)) = 108000"
    unfolding Let_def m by (simp add: demoLedger_account)
  with ne ao show ?thesis by simp
qed

theorem executePaperTrade_opens_one_position_witness:
  "executePaperTrade ''p9'' 100009 3 (demoSignal\<lparr>action := WAIT\<rparr>) ''XAUUSD'' demoLedger
     = (demoLedger, None)
   \<and> (\<exists>np L'. executePaperTrade ''p2'' 100002 5 demoSignal ''XAUUSD'' demoLedger = (L', Some np)
        \<and> positions (accountState L') = np # positions (accountState demoLedger)
        \<and> currentPrice np = 2000 \<and> pnl np = 0 \<and> tp np = 2000.05
        \<and> marginUsed (accountState L') = 4000
        \<and> calls L' = calls demoLedger @ [(7, accountState L')])"
proof -
  have w: "action (demoSignal\<lparr>action := WAIT\<rparr>) = WAIT" by simp
  have b: "action demoSignal \<noteq> WAIT" by (simp add: demoSignal_def)
  have l: "listeners demoLedger = [7]" by (simp add: ledger_eval)
  from executePaperTrade_opens_one_position
         [of "demoSignal\<lparr>action := WAIT\<rparr>" "''p9''" 100009 3 "''XAUUSD''" demoLedger] w
  have 1: "executePaperTrade ''p9'' 100009 3 (demoSignal\<lparr>action := WAIT\<rparr>) ''XAUUSD'' demoLedger
     = (demoLedger, None)" by blast
  from executePaperTrade_opens_one_position
         [of demoSignal "''p2''" 100002 5 "''XAUUSD''" demoLedger] b
  obtain np L' where h: "executePaperTrade ''p2'' 100002 5 demoSignal ''XAUUSD'' demoLedger = (L', Some np)"
      "positions (accountState L') = np # positions (accountState demoLedger)"
      "currentPrice np = entryPrice demoSignal" "pnl np = 0" "tp np = takeProfit1 demoSignal"
      "marginUsed (accountState L') =
         marginUsed (accountState demoLedger) + entryPrice demoSignal * lotSizeCalculation demoSignal"
      "calls L' = calls demoLedger @ map (\<lambda>l. (l, accountState L')) (listeners demoLedger)"
    by blast
  have "currentPrice np = 2000" "tp np = 2000.05" "marginUsed (accountState L') = 4000"
    "calls L' = calls demoLedger @ [(7, accountState L')]"
    using h(3,5,6,7) by (simp_all add: demoSignal_def demoLedger_account l)
  with 1 h(1,2,4) show ?thesis by blast
qed

theorem closePosition_twice_is_once_witness:
  "''zz'' \<notin> id_pos ` set (positions (accountState demoLedger))
   \<and> closePosition ''zz'' demoLedger = demoLedger
   \<and> distinct (map id_pos (positions (accountState demoLedger)))
   \<and> closePosition ''p1'' (closePosition ''p1'' demoLedger) = closePosition ''p1'' demoLedger
   \<and> positions (accountState (closePosition ''p1'' demoLedger)) = []
   \<and> balance (accountState (closePosition ''p1'' demoLedger)) = 100000"
proof -
  have u: "''zz'' \<notin> id_pos ` set (positions (accountState demoLedger))"
    by (simp add: demoLedger_account)
  have d: "distinct (map id_pos (positions (accountState demoLedger)))"
    by (simp add: demoLedger_account)
  obtain p where p: "p \<in> set (positions (accountState demoLedger))" "id_pos p = ''p1''" "pnl p = 0"
    by (simp add: demoLedger_account)
  from closePosition_twice_is_once [of "''zz''" demoLedger] u
  have 1: "closePosition ''zz'' demoLedger = demoLedger" by blast
  from closePosition_twice_is_once [of "''p1''" demoLedger] d p(1,2)
  have 2: "closePosition ''p1'' (closePosition ''p1'' demoLedger) = closePosition ''p1'' demoLedger"
    and 3: "positions (accountState (closePosition ''p1'' demoLedger)) =
              filter (\<lambda>q. id_pos q \<noteq> ''p1'') (positions (accountState demoLedger))"
    and 4: "balance (accountState (closePosition ''p1'' demoLedger)) =
              balance (accountState demoLedger) + pnl p"
    by blast+
  from 3 4 p(3) have "positions (accountState (closePosition ''p1'' demoLedger)) = []"
    "balance (accountState (closePosition ''p1'' demoLedger)) = 100000"
    by (simp_all add: demoLedger_account)
  with u d 1 2 show ?thesis by blast
qed

theorem tickMarket_empty_is_silent_witness:
  "positions (accountState (subscribeToAccountUpdates 7 initialLedger)) = []
   \<and> tickMarket (\<lambda>k. 0.9) (subscribeToAccountUpdates 7 initialLedger)
       = subscribeToAccountUpdates 7 initialLedger
   \<and> calls (tickMarket (\<lambda>k. 0.9) (subscribeToAccountUpdates 7 initialLedger))
       = [(7, initialAccount)]"
proof -
  have e: "positions (accountState (subscribeToAccountUpdates 7 initialLedger)) = []"
    by (simp add: subscribeToAccountUpdates_def initialLedger_def initialAccount_def)
  from tickMarket_empty_is_silent [OF e, of "\<lambda>k. 0.9"] e show ?thesis
    by (simp add: subscribeToAccountUpdates_def initialLedger_def)
qed

section \<open>Verification of the ledger on the values it is given\<close>

text \<open>
  On values of the declared types the two models of \<^verbatim>\<open>executePaperTrade\<close> agree, and the
  invariant with the equality of the program is the invariant over the reals.
\<close>

lemma nan_ops_Some:
  "nan_add (Some x) (Some y) = Some (x + y)"
  "nan_sub (Some x) (Some y) = Some (x - y)"
  "nan_mul (Some x) (Some y) = Some (x * y)"
  "nan_div_lit (Some x) c = Some (x / c)"
  "js_eq (Some x) (Some y) = (x = y)"
  by (simp_all add: nan_add_def nan_sub_def nan_mul_def nan_div_lit_def js_eq_def)

lemma foldl_nan_add_as_js:
  "foldl (\<lambda>sum p. nan_add sum (pnl_js p)) (Some b) (map position_as_js ps)
     = Some (foldl (\<lambda>sum p. sum + pnl p) b ps)"
  by (induction ps arbitrary: b) (simp_all add: nan_ops_Some position_as_js_def)

lemma updateEquityA_as_js:
  "updateEquityA_js (account_as_js a) = account_as_js (updateEquityA a)"
  by (simp add: updateEquityA_js_def updateEquityA_def account_as_js_def Let_def
        floatingPnL_js_def floatingPnL_def foldl_nan_add_as_js nan_ops_Some)

lemma accountInv_as_js:
  "accountInv_js (account_as_js a) =
     (equity a = balance a + openPnl a \<and> freeMargin a = equity a - marginUsed a)"
proof -
  have f: "filter (\<lambda>p. status_js p = OPEN) (map position_as_js ps)
      = map position_as_js (filter (\<lambda>p. status p = OPEN) ps)" for ps
    by (induction ps) (simp_all add: position_as_js_def)
  show ?thesis
    by (simp add: accountInv_js_def openPnl_js_def account_as_js_def f foldl_nan_add_as_js
          nan_ops_Some openPnl_def foldl_pnl)
qed

lemma executePaperTrade_as_js:
  "executePaperTrade_js uuid tk now (execution_as_js ex) (Some a) (ledger_as_js L) =
     (ledger_as_js (fst (executePaperTrade uuid tk now ex a L)),
      map_option position_as_js (snd (executePaperTrade uuid tk now ex a L)))"
proof (cases "action ex = WAIT")
  case True
  then show ?thesis
    by (simp add: executePaperTrade_js_def executePaperTrade_def execution_as_js_def)
next
  case False
  let ?np = "newPosition uuid tk now ex a"
  let ?acc2 = "(accountState L)\<lparr>positions := ?np # positions (accountState L),
        marginUsed := marginUsed (accountState L) + (entryPrice_pos ?np * lots ?np * 100) / 100\<rparr>"
  have act: "action_j (execution_as_js ex) = Some (action ex)"
    by (simp add: execution_as_js_def)
  have np: "newPosition_js uuid tk now (execution_as_js ex) (Some a) = position_as_js ?np"
    by (simp add: newPosition_js_def newPosition_def position_as_js_def execution_as_js_def)
  have a2: "(accountState_js (ledger_as_js L))\<lparr>
        positions_js := position_as_js ?np # positions_js (accountState_js (ledger_as_js L)),
        marginUsed_js := nan_add (marginUsed_js (accountState_js (ledger_as_js L)))
           (nan_div_lit (nan_mul (nan_mul (entryPrice_js (position_as_js ?np))
                                          (lots_js (position_as_js ?np))) (Some 100)) 100)\<rparr>
      = account_as_js ?acc2"
    by (simp add: ledger_as_js_def account_as_js_def position_as_js_def nan_ops_Some)
  have js: "executePaperTrade_js uuid tk now (execution_as_js ex) (Some a) (ledger_as_js L) =
      (notifyListeners_js (updateEquity_js ((ledger_as_js L)\<lparr>accountState_js := account_as_js ?acc2\<rparr>)),
       Some (position_as_js ?np))"
    using False act by (simp add: executePaperTrade_js_def Let_def np a2)
  have ty: "executePaperTrade uuid tk now ex a L =
      (notifyListeners (updateEquity (L\<lparr>accountState := ?acc2\<rparr>)), Some ?np)"
    using False by (simp add: executePaperTrade_def Let_def)
  have lift: "notifyListeners_js (updateEquity_js ((ledger_as_js M)\<lparr>accountState_js := account_as_js b\<rparr>))
      = ledger_as_js (notifyListeners (updateEquity (M\<lparr>accountState := b\<rparr>)))" for M b
    by (simp add: notifyListeners_js_def updateEquity_js_def notifyListeners_def updateEquity_def
          ledger_as_js_def updateEquityA_as_js)
  show ?thesis unfolding js ty by (simp add: lift)
qed

lemma nan_margin_breaks_invariant:
  "marginUsed_js a = None \<Longrightarrow> \<not> accountInv_js (updateEquityA_js a)"
  by (simp add: accountInv_js_def updateEquityA_js_def Let_def nan_sub_def js_eq_def
        split: option.split)

text \<open>
  Claim C1, at the run on the minimal reply. The initial account satisfies the invariant. The
  gateway returns the execution with \<open>lotSizeCalculation\<close> undefined and the view hands it to
  \<open>executePaperTrade\<close>: the position is opened with undefined lots, the used margin becomes
  NaN and so does the free margin, while the equity is still 100000. NaN is equal to nothing, so
  after the operation \<open>freeMargin == equity - marginUsed\<close> is false: the operation does not
  preserve the account invariant.
\<close>

theorem undefined_lots_break_invariant:
  "accountInv_js (accountState_js initialLedger_js)
   \<and> fst undefinedLotsRun = SENDING
   \<and> map lots_js (positions_js (accountState_js (snd undefinedLotsRun))) = [None]
   \<and> equity_js (accountState_js (snd undefinedLotsRun)) = Some 100000
   \<and> marginUsed_js (accountState_js (snd undefinedLotsRun)) = None
   \<and> freeMargin_js (accountState_js (snd undefinedLotsRun)) = None
   \<and> \<not> js_eq (freeMargin_js (accountState_js (snd undefinedLotsRun)))
          (nan_sub (equity_js (accountState_js (snd undefinedLotsRun)))
                   (marginUsed_js (accountState_js (snd undefinedLotsRun))))
   \<and> \<not> accountInv_js (accountState_js (snd undefinedLotsRun))"
  by (simp add: undefinedLotsRun_def analyzeMultiTimeframeAgent_def
        analyzeMultiTimeframeAgent_result_def minimalReply_def emptyExecution_def spreadOver_def
        js_orv_def autoExecuteEffect_js_def handlePaperExecute_js_def executePaperTrade_js_def
        newPosition_js_def updateEquity_js_def updateEquityA_js_def notifyListeners_js_def
        floatingPnL_js_def initialLedger_js_def INITIAL_BALANCE_def accountInv_js_def
        openPnl_js_def js_eq_def nan_add_def nan_sub_def nan_mul_def nan_div_lit_def Let_def)

section \<open>Verification of the activity filter, the scheduler and the gateway\<close>

lemma foldl_js_add_Fin:
  "\<forall>c\<in>set bars. open_c c \<noteq> 0 \<Longrightarrow>
   foldl (\<lambda>a b. js_add a b) (Fin s) (map (\<lambda>c. js_div (high c - low c) (open_c c)) bars)
     = Fin (s + sum_list (map (\<lambda>c. (high c - low c) / open_c c) bars))"
  by (induction bars arbitrary: s) (simp_all add: js_div_def add.assoc)

text \<open>
  Claim C5. \<open>isMarketActive\<close> is true on fewer than 3 bars, the empty sequence included. On
  3 or more bars, none with open 0 (the caller's precondition), it is true exactly when the
  average of the range ratios \<open>(high - low) / open\<close> is strictly greater than 0.00015; an
  average equal to the threshold gives false.
\<close>

theorem isMarketActive_threshold:
  "(length bars < 3 \<longrightarrow> isMarketActive bars)
   \<and> (3 \<le> length bars \<and> (\<forall>c\<in>set bars. open_c c \<noteq> 0) \<longrightarrow>
        isMarketActive bars = (spec_averageRange bars > 0.00015))"
proof -
  have "isMarketActive bars = (spec_averageRange bars > 0.00015)"
    if "3 \<le> length bars" "\<forall>c\<in>set bars. open_c c \<noteq> 0"
    using that(1) foldl_js_add_Fin[OF that(2), of 0]
    by (simp add: isMarketActive_def spec_averageRange_def Let_def)
  then show ?thesis by (simp add: isMarketActive_def)
qed

theorem isMarketActive_threshold_witness:
  "isMarketActive [] \<and> isMarketActive [flatBar 0, flatBar 0]
   \<and> spec_averageRange [flatBar 15, flatBar 15, flatBar 15] = 0.00015
   \<and> \<not> isMarketActive [flatBar 15, flatBar 15, flatBar 15]
   \<and> isMarketActive [flatBar 15, flatBar 15, flatBar 16]
   \<and> \<not> isMarketActive [flatBar 0, flatBar 0, flatBar 0]"
proof -
  have nz: "\<forall>c\<in>set [flatBar a, flatBar b, flatBar c]. open_c c \<noteq> 0" for a b c
    by (simp add: flatBar_def)
  have 1: "isMarketActive [] \<and> isMarketActive [flatBar 0, flatBar 0]"
    using isMarketActive_threshold [of "[]"] isMarketActive_threshold [of "[flatBar 0, flatBar 0]"]
    by simp
  have 2: "isMarketActive [flatBar a, flatBar b, flatBar c]
      = (spec_averageRange [flatBar a, flatBar b, flatBar c] > 0.00015)" for a b c
    using isMarketActive_threshold [of "[flatBar a, flatBar b, flatBar c]"] nz[of a b c] by simp
  show ?thesis using 1 by (simp add: 2) (simp add: spec_averageRange_def flatBar_def)
qed

text \<open>
  Claim C6. Step 5 of the cycle acts on the decision of the spec's Execution Policy: WAIT is
  rejected whatever the confidence, otherwise a confidence of at least \<open>minConfidence\<close>
  executes, otherwise the signal is rejected for low confidence. Each decision has its own
  effect on the status and the log, so the effect tells the decision.
\<close>

theorem executionLogic_follows_policy:
  "executionLogic r result st =
     (case spec_decide (execution result) (minConfidence (agentConfig_r r)) of
        EXECUTE \<Rightarrow>
          setTimeout (SetTimeframe ''15m'') 2000
            (addAgentLog (ScalpSignal (action (execution result)) (entryPrice (execution result))
                            (confidenceScore (execution result))) SUCCESS
               (setAgentStatus EXECUTING st))
      | REJECT_LOW_CONFIDENCE \<Rightarrow>
          setAgentStatus COOLDOWN
            (addAgentLog (LowConfidence (confidenceScore (execution result))) WARNING st)
      | REJECT_WAIT \<Rightarrow>
          setAgentStatus COOLDOWN (addAgentLog StructureNeutral INFO st))"
  by (simp add: executionLogic_def spec_decide_def)

theorem executionLogic_follows_policy_witness:
  "spec_decide (execution (policySignal WAIT 99)) 50 = REJECT_WAIT
   \<and> executionLogic (policyRender 50) (policySignal WAIT 99) initialApp =
       initialApp\<lparr>agentStatus := COOLDOWN,
                  agentLogs := [\<lparr>message = StructureNeutral, type_log = INFO\<rparr>]\<rparr>
   \<and> spec_decide (execution (policySignal BUY 80)) 75 = EXECUTE
   \<and> executionLogic (policyRender 75) (policySignal BUY 80) initialApp =
       initialApp\<lparr>agentStatus := EXECUTING,
                  agentLogs := [\<lparr>message = ScalpSignal BUY 2000 80, type_log = SUCCESS\<rparr>],
                  timeouts := [(2000, SetTimeframe ''15m'')]\<rparr>
   \<and> spec_decide (execution (policySignal SELL 60)) 75 = REJECT_LOW_CONFIDENCE
   \<and> executionLogic (policyRender 75) (policySignal SELL 60) initialApp =
       initialApp\<lparr>agentStatus := COOLDOWN,
                  agentLogs := [\<lparr>message = LowConfidence 60, type_log = WARNING\<rparr>]\<rparr>"
proof -
  have d: "spec_decide (execution (policySignal WAIT 99)) 50 = REJECT_WAIT"
    "spec_decide (execution (policySignal BUY 80)) 75 = EXECUTE"
    "spec_decide (execution (policySignal SELL 60)) 75 = REJECT_LOW_CONFIDENCE"
    by (simp_all add: spec_decide_def policySignal_def)
  have m: "minConfidence (agentConfig_r (policyRender x)) = x" for x
    by (simp add: policyRender_def)
  show ?thesis
    using executionLogic_follows_policy [of "policyRender 50" "policySignal WAIT 99" initialApp]
      executionLogic_follows_policy [of "policyRender 75" "policySignal BUY 80" initialApp]
      executionLogic_follows_policy [of "policyRender 75" "policySignal SELL 60" initialApp]
    by (simp add: d m)
      (simp add: policySignal_def demoSignal_def initialApp_def setTimeout_def addAgentLog_def
         setAgentStatus_def)
qed

lemmas scheduler_eval =
  toggleAgent_def agentLoopEffect_def resumeAgent_def fireTimeout_def runAgentCycle_def
  cycleBody_def cycleCatch_def executionLogic_def captureFrame_def clearAgentTimer_def
  setIntervalRef_def setTimeout_def setAgentStatus_def addAgentLog_def render_def
  worldWith_def readyCapture_def isMarketActive_def Let_def

lemma mountedApp_eq:
  "mountedApp = initialApp\<lparr>agentLogs := [\<lparr>message = AgentDeactivated, type_log = WARNING\<rparr>]\<rparr>"
  by (simp add: mountedApp_def initialApp_def scheduler_eval)

lemma runA1_eq:
  "runA1 = initialApp\<lparr>
     agentStatus := COOLDOWN,
     agentConfig := \<lparr>isActive = True, intervalSeconds = 60, minConfidence = 75, riskPerTrade = 1\<rparr>,
     agentLogs := [\<lparr>message = QuotaLimitHit, type_log = ERROR\<rparr>,
                   \<lparr>message = AnalyzingConfluence ''XAUUSD'', type_log = INFO\<rparr>,
                   \<lparr>message = AgentActivated, type_log = INFO\<rparr>,
                   \<lparr>message = AgentDeactivated, type_log = WARNING\<rparr>],
     agentTimerRef := Some 1, intervals := [], timeouts := [(60000, Resume activeRender)],
     nextHandle := 2, chartTimeframe := ''1m''\<rparr>"
  by (simp add: runA1_def mountedApp_eq initialApp_def activeRender_def scheduler_eval)

lemma runA2_eq:
  "runA2 = runA1\<lparr>
     agentStatus := IDLE,
     agentConfig := \<lparr>isActive = False, intervalSeconds = 60, minConfidence = 75, riskPerTrade = 1\<rparr>,
     agentLogs := \<lparr>message = AgentDeactivated, type_log = WARNING\<rparr> # agentLogs runA1\<rparr>"
  by (simp add: runA2_def runA1_eq initialApp_def scheduler_eval)

text \<open>
  Claim C7, at run A. The rate-limited cycle cancels the periodic timer, logs an error and
  leaves one timeout of 60000 ms. The agent is then deactivated: the live \<open>isActive\<close> is false,
  the status is IDLE and no interval is armed. When the timeout fires, its callback tests the
  \<^verbatim>\<open>agentConfig\<close> bound by the render that started the cycle, which is active: it runs a cycle
  and arms the periodic timer although the agent is not active at resumption time.
\<close>

theorem resume_ignores_deactivation:
  "isActive (agentConfig runA1) \<and> intervals runA1 = []
   \<and> timeouts runA1 = [(60000, Resume activeRender)]
   \<and> \<not> isActive (agentConfig runA2) \<and> agentStatus runA2 = IDLE \<and> intervals runA2 = []
   \<and> timeouts runA2 = [(60000, Resume activeRender)]
   \<and> \<not> isActive (agentConfig runA3) \<and> intervals runA3 = [(2, 60000, activeRender)]
   \<and> agentTimerRef runA3 = Some 2 \<and> agentStatus runA3 = COOLDOWN
   \<and> map message (take 3 (agentLogs runA3)) =
        [StructureNeutral, AnalyzingConfluence ''XAUUSD'', CooldownComplete]"
  by (simp add: runA3_def runA2_eq runA1_eq initialApp_def activeRender_def waitResult_def
        demoSignal_def scheduler_eval)

lemma runB1_eq:
  "runB1 = initialApp\<lparr>
     agentStatus := EXECUTING,
     agentConfig := \<lparr>isActive = True, intervalSeconds = 60, minConfidence = 75, riskPerTrade = 1\<rparr>,
     agentLogs := [\<lparr>message = ScalpSignal BUY 2000 80, type_log = SUCCESS\<rparr>,
                   \<lparr>message = AnalyzingConfluence ''XAUUSD'', type_log = INFO\<rparr>,
                   \<lparr>message = AgentActivated, type_log = INFO\<rparr>,
                   \<lparr>message = AgentDeactivated, type_log = WARNING\<rparr>],
     analysisResult := Some buyResult,
     agentTimerRef := Some 1, intervals := [(1, 60000, activeRender)],
     timeouts := [(2000, SetTimeframe ''15m'')],
     nextHandle := 2, chartTimeframe := ''1m''\<rparr>"
  by (simp add: runB1_def mountedApp_eq initialApp_def activeRender_def buyResult_def
        demoSignal_def scheduler_eval)

text \<open>
  Claim C8, at run B. The decision is EXECUTE; the cycle sets the status to EXECUTING, logs the
  signal and leaves one timeout of 2000 ms whose callback sets the timeframe of the chart. After
  that timeout has fired no timeout is pending and the status is still EXECUTING: the cycle does
  not return to COOLDOWN.
\<close>

theorem execute_never_returns_to_cooldown:
  "spec_decide (execution buyResult) (minConfidence (agentConfig mountedApp)) = EXECUTE
   \<and> agentStatus runB1 = EXECUTING \<and> timeouts runB1 = [(2000, SetTimeframe ''15m'')]
   \<and> agentStatus runB2 = EXECUTING \<and> timeouts runB2 = [] \<and> chartTimeframe runB2 = ''15m''
   \<and> agentStatus runB2 \<noteq> COOLDOWN"
  by (simp add: runB2_def runB1_eq mountedApp_eq initialApp_def buyResult_def demoSignal_def
        spec_decide_def fireTimeout_def worldWith_def Let_def)

text \<open>
  Run B continued: the interval armed at activation holds the closure of the activating render,
  whose status is IDLE, so its guard lets the next tick through and that cycle moves the status.
\<close>

lemma runB_next_tick:
  "agentStatus (fireInterval 1 (worldWith (Inr waitResult)) runB2) = COOLDOWN"
  by (simp add: runB2_def runB1_eq initialApp_def activeRender_def waitResult_def demoSignal_def
        fireInterval_def scheduler_eval)

text \<open>
  Claim C9, at a response that holds only the required fields \<open>action\<close> and
  \<open>confidenceScore\<close>. \<open>analyzeMultiTimeframeAgent\<close> sets the entry price to the live price and
  returns stop loss and both take profits undefined; \<open>analyzeCharts\<close> defaults stop loss and
  the first take profit to 0 and returns the second take profit undefined. Neither result has
  every monetary field defined.
\<close>

theorem gateway_leaves_fields_undefined:
  "analyzeMultiTimeframeAgent True ''XAUUSD'' 2000 (Json minimalReply) =
     Inr \<lparr>assetName_j = Some ''XAUUSD'', currentPrice_j = Some 2000, searchPrice_j = Some 0,
          execution_j = Some (emptyExecution\<lparr>action_j := Some BUY, confidenceScore_j := Some 80,
                                entryPrice_j := Some 2000\<rparr>)\<rparr>
   \<and> \<not> monetaryDefined \<lparr>assetName_j = Some ''XAUUSD'', currentPrice_j = Some 2000, searchPrice_j = Some 0,
          execution_j = Some (emptyExecution\<lparr>action_j := Some BUY, confidenceScore_j := Some 80,
                                entryPrice_j := Some 2000\<rparr>)\<rparr>
   \<and> analyzeCharts True (Some (''XAUUSD'', 2000)) (Json minimalReply) =
     Inr \<lparr>assetName_j = Some ''XAUUSD'', currentPrice_j = Some 2000, searchPrice_j = None,
          execution_j = Some (emptyExecution\<lparr>action_j := Some BUY, confidenceScore_j := Some 80,
                                entryPrice_j := Some 2000, stopLoss_j := Some 0,
                                takeProfit1_j := Some 0\<rparr>)\<rparr>
   \<and> \<not> monetaryDefined \<lparr>assetName_j = Some ''XAUUSD'', currentPrice_j = Some 2000, searchPrice_j = None,
          execution_j = Some (emptyExecution\<lparr>action_j := Some BUY, confidenceScore_j := Some 80,
                                entryPrice_j := Some 2000, stopLoss_j := Some 0,
                                takeProfit1_j := Some 0\<rparr>)\<rparr>"
  by (simp add: analyzeMultiTimeframeAgent_def analyzeMultiTimeframeAgent_result_def
        analyzeCharts_def analyzeCharts_result_def minimalReply_def emptyExecution_def
        spreadOver_def js_or_def js_orv_def optField_def monetaryDefined_def Let_def)

subsection \<open>What the catch, the execute branch and the gateway do in general\<close>

text \<open>
  The parts of the rate-limit handling that do not depend on the render: the timer of the ref is
  cancelled, one error is logged, one timeout of 60000 ms is added; any other error is logged and
  the status set to COOLDOWN, with timers untouched.
\<close>

lemma cycleCatch_effect:
  "cycleCatch r ''RATE_LIMIT'' st =
     (clearAgentTimer st)\<lparr>agentStatus := COOLDOWN,
        agentLogs := take 50 (\<lparr>message = QuotaLimitHit, type_log = ERROR\<rparr> # agentLogs st),
        timeouts := timeouts st @ [(60000, Resume r)]\<rparr>"
  "msg \<noteq> ''RATE_LIMIT'' \<Longrightarrow> cycleCatch r msg st =
     st\<lparr>agentStatus := COOLDOWN,
        agentLogs := take 50 (\<lparr>message = AgentError msg, type_log = ERROR\<rparr> # agentLogs st)\<rparr>"
  by (simp_all add: cycleCatch_def setTimeout_def clearAgentTimer_def setAgentStatus_def
        addAgentLog_def split: option.split)

lemma clearAgentTimer_cancels:
  "agentTimerRef st = Some h \<Longrightarrow> h \<noteq> 0 \<Longrightarrow>
     h \<notin> fst ` set (intervals (clearAgentTimer st))"
  by (auto simp add: clearAgentTimer_def)

lemma executionLogic_execute_stays:
  assumes "action (execution result) \<noteq> WAIT"
    and "confidenceScore (execution result) \<ge> minConfidence (agentConfig_r r)"
  shows "agentStatus (executionLogic r result st) = EXECUTING"
    and "timeouts (executionLogic r result st) = timeouts st @ [(2000, SetTimeframe ''15m'')]"
    and "agentStatus (fireTimeout (length (timeouts st)) w (executionLogic r result st)) = EXECUTING"
  using assms
  by (simp_all add: executionLogic_def setTimeout_def addAgentLog_def setAgentStatus_def
        fireTimeout_def Let_def)

lemma autoExecuteEffect_opens:
  "action (execution result) \<noteq> WAIT \<Longrightarrow>
     autoExecuteEffect True result uuid tk now (BRIDGE_IDLE, L) =
       (SENDING, fst (executePaperTrade uuid tk now (execution result) (assetName result) L))"
  "b \<noteq> BRIDGE_IDLE \<Longrightarrow> autoExecuteEffect a result uuid tk now (b, L) = (b, L)"
  by (simp_all add: autoExecuteEffect_def handlePaperExecute_def)

lemma agentCatch_429:
  "agentCatch \<lparr>errString = ''ApiError: 429 Too Many Requests'', errMessage = None,
      errStatus = None\<rparr> = ''RATE_LIMIT''"
  "agentCatch emptyResponseError = ''Agent failed to correlate timeframes. Please check chart data.''"
  by (simp_all add: agentCatch_def emptyResponseError_def)

lemma js_or_default: "js_or a (Some v) \<noteq> None"
  by (simp add: js_or_def split: option.split)

lemma js_orv_default: "d \<noteq> None \<Longrightarrow> js_orv a d \<noteq> None"
  by (simp add: js_orv_def split: option.split)

lemma spreadOver_keeps:
  "action_j d \<noteq> None \<Longrightarrow> action_j (spreadOver d e) \<noteq> None"
  "confidenceScore_j d \<noteq> None \<Longrightarrow> confidenceScore_j (spreadOver d e) \<noteq> None"
  "entryPrice_j d \<noteq> None \<Longrightarrow> entryPrice_j (spreadOver d e) \<noteq> None"
  "stopLoss_j d \<noteq> None \<Longrightarrow> stopLoss_j (spreadOver d e) \<noteq> None"
  "takeProfit1_j d \<noteq> None \<Longrightarrow> takeProfit1_j (spreadOver d e) \<noteq> None"
  by (cases e; simp add: spreadOver_def js_orv_default)+

lemma analyzeCharts_defaults:
  assumes "analyzeCharts True ctx (Json parsed) = Inr res"
  shows "\<exists>e. execution_j res = Some e \<and> action_j e \<noteq> None \<and> confidenceScore_j e \<noteq> None
        \<and> entryPrice_j e \<noteq> None \<and> stopLoss_j e \<noteq> None \<and> takeProfit1_j e \<noteq> None"
proof -
  from assms have res: "res = analyzeCharts_result ctx parsed"
    by (simp add: analyzeCharts_def)
  show ?thesis unfolding res analyzeCharts_result_def Let_def
    by (simp del: not_None_eq add: spreadOver_keeps js_or_default js_orv_default)
qed

lemma analyzeMultiTimeframeAgent_entryPrice:
  "analyzeMultiTimeframeAgent True symb livePrice (Json parsed) = Inr res \<Longrightarrow>
     \<exists>e. execution_j res = Some e \<and> entryPrice_j e = Some livePrice"
  by (auto simp add: analyzeMultiTimeframeAgent_def analyzeMultiTimeframeAgent_result_def)

subsection \<open>The resumption does not read the live configuration\<close>

text \<open>
  Setting the live \<^verbatim>\<open>agentConfig\<close> commutes with every step of the scheduler that runs inside a
  closure: the cycle and the resumption read the configuration of their render only. Whether the
  operator has deactivated the agent in the meantime has no influence on what the 60 s callback
  does.
\<close>

lemma prim_live:
  "setAgentStatus s (st\<lparr>agentConfig := c\<rparr>) = (setAgentStatus s st)\<lparr>agentConfig := c\<rparr>"
  "addAgentLog m t (st\<lparr>agentConfig := c\<rparr>) = (addAgentLog m t st)\<lparr>agentConfig := c\<rparr>"
  "setTimeout cb ms (st\<lparr>agentConfig := c\<rparr>) = (setTimeout cb ms st)\<lparr>agentConfig := c\<rparr>"
  "setIntervalRef r ms (st\<lparr>agentConfig := c\<rparr>) = (setIntervalRef r ms st)\<lparr>agentConfig := c\<rparr>"
  "clearAgentTimer (st\<lparr>agentConfig := c\<rparr>) = (clearAgentTimer st)\<lparr>agentConfig := c\<rparr>"
  "(st\<lparr>agentConfig := c\<rparr>)\<lparr>analysisResult := a\<rparr> = (st\<lparr>analysisResult := a\<rparr>)\<lparr>agentConfig := c\<rparr>"
  by (simp_all add: setAgentStatus_def addAgentLog_def setTimeout_def setIntervalRef_def
        clearAgentTimer_def split: option.split)

lemma captureFrame_live:
  "captureFrame tf m cap (st\<lparr>agentConfig := c\<rparr>) =
     (fst (captureFrame tf m cap st)\<lparr>agentConfig := c\<rparr>, snd (captureFrame tf m cap st))"
  by (simp add: captureFrame_def addAgentLog_def Let_def)

lemma executionLogic_live:
  "executionLogic r result (st\<lparr>agentConfig := c\<rparr>) = (executionLogic r result st)\<lparr>agentConfig := c\<rparr>"
  by (simp add: executionLogic_def prim_live)

lemma cycleCatch_live:
  "cycleCatch r msg (st\<lparr>agentConfig := c\<rparr>) = (cycleCatch r msg st)\<lparr>agentConfig := c\<rparr>"
  by (simp add: cycleCatch_def prim_live)

lemma cycleBody_live:
  "cycleBody r w (st\<lparr>agentConfig := c\<rparr>) =
     (case cycleBody r w st of
        Inl (msg, st') \<Rightarrow> Inl (msg, st'\<lparr>agentConfig := c\<rparr>)
      | Inr st' \<Rightarrow> Inr (st'\<lparr>agentConfig := c\<rparr>))"
proof -
  obtain s1 o1 where c1: "captureFrame ''4h'' (chartMounted w) (htf w) (setAgentStatus SCANNING_HTF st) = (s1, o1)"
    by (cases "captureFrame ''4h'' (chartMounted w) (htf w) (setAgentStatus SCANNING_HTF st)")
  obtain s2 o2 where c2: "captureFrame ''15m'' (chartMounted w) (mtf w) (setAgentStatus SCANNING_MTF s1) = (s2, o2)"
    by (cases "captureFrame ''15m'' (chartMounted w) (mtf w) (setAgentStatus SCANNING_MTF s1)")
  obtain s3 o3 where c3: "captureFrame ''1m'' (chartMounted w) (vltf w) (setAgentStatus SCANNING_1m s2) = (s3, o3)"
    by (cases "captureFrame ''1m'' (chartMounted w) (vltf w) (setAgentStatus SCANNING_1m s2)")
  show ?thesis
    by (simp add: cycleBody_def prim_live captureFrame_live executionLogic_live c1 c2 c3 Let_def
          split: option.split sum.split)
qed

lemma runAgentCycle_live:
  "runAgentCycle r w (st\<lparr>agentConfig := c\<rparr>) = (runAgentCycle r w st)\<lparr>agentConfig := c\<rparr>"
  by (simp add: runAgentCycle_def cycleBody_live cycleCatch_live split: sum.split prod.split)

lemma resumeAgent_live:
  "resumeAgent r w (st\<lparr>agentConfig := c\<rparr>) = (resumeAgent r w st)\<lparr>agentConfig := c\<rparr>"
  by (simp add: resumeAgent_def Let_def prim_live runAgentCycle_live)

end
